theory Spec2Isabelle
  imports Main
begin

section \<open>Constants of main.go\<close>

definition appDisplayName :: string where "appDisplayName = ''CCU-Jack''"
definition appVersion :: string where "appVersion = ''-dev-''"
definition appDescription :: string where "appDescription = ''REST/MQTT-Server for the HomeMatic CCU''"
definition appCopyright :: string where "appCopyright = ''(C)2020-2021''"
definition appVendor :: string where "appVendor = ''info@ccu-historian.de''"
definition webUIDir :: string where "webUIDir = ''webui''"
definition configFile :: string where "configFile = ''ccu-jack.cfg''"
definition caCertFile :: string where "caCertFile = ''cacert.pem''"
definition caKeyFile :: string where "caKeyFile = ''cacert.key''"
definition serverCertFile :: string where "serverCertFile = ''svrcert.pem''"
definition serverKeyFile :: string where "serverKeyFile = ''svrcert.key''"
definition mqttWsPath :: string where "mqttWsPath = ''/ws-mqtt''"

section \<open>Errors, time and number formatting\<close>

text \<open>
  A Go value of type \<open>error\<close> is modelled as \<open>error option\<close>: \<open>None\<close> is
  \<open>nil\<close>. \<open>PathError\<close> is what the \<open>os\<close> package returns, \<open>Failure\<close> is an error
  value made by a collaborator (identified by its message), \<open>Errorf\<close> is
  \<open>fmt.Errorf(prefix + "%w", err)\<close>.
\<close>

datatype errno = ENOENT | EACCES | EIO

datatype error = PathError errno | Failure string | Errorf string error

text \<open>\<open>os.IsNotExist\<close>: true only for the "does not exist" error; false for \<open>nil\<close>.\<close>

fun os_IsNotExist :: "error option \<Rightarrow> bool" where
  "os_IsNotExist (Some (PathError ENOENT)) = True"
| "os_IsNotExist _ = False"

text \<open>
  \<open>time.Time\<close> and \<open>time.Duration\<close> are counted in nanoseconds; \<open>time.Duration\<close> is a
  64-bit signed integer in Go. \<open>time_Add\<close> is \<open>Time.Add\<close>.
\<close>

type_synonym time = int
type_synonym duration = int

definition time_Hour :: duration where "time_Hour = 3600 * 1000000000"
definition time_Second :: duration where "time_Second = 1000000000"

definition time_Add :: "time \<Rightarrow> duration \<Rightarrow> time" where
  "time_Add t d = t + d"

text \<open>\<open>strconv.Itoa\<close>: the decimal representation of an integer.\<close>

definition digit_char :: "nat \<Rightarrow> char" where
  "digit_char d = char_of (48 + d)"

fun nat_digits :: "nat \<Rightarrow> string" where
  "nat_digits n =
     (if n < 10 then [digit_char n] else nat_digits (n div 10) @ [digit_char (n mod 10)])"

declare nat_digits.simps [simp del]

definition Itoa :: "int \<Rightarrow> string" where
  "Itoa i = (if i < 0 then CHR ''-'' # nat_digits (nat (- i)) else nat_digits (nat i))"

section \<open>The configuration snapshot (rtcfg.Config, as far as main.go reads it)\<close>

datatype log_level = OffLevel | ErrorLevel | WarningLevel | InfoLevel | DebugLevel | TraceLevel

record config =
  Logging_Level :: log_level
  Logging_FilePath :: string
  Host_Name :: string
  Host_Address :: string
  HTTP_Port :: int
  HTTP_PortTLS :: int
  HTTP_CORSOrigins :: "string list"
  MQTT_Port :: int
  MQTT_PortTLS :: int
  BINRPC_Port :: int
  CCU_Address :: string
  CCU_Interfaces :: "string list"
  CCU_InitID :: string

section \<open>Objects built by main.go\<close>

text \<open>
  Pointers to the process-wide service handles are modelled as names of these handles
  (\<open>ref\<close>); the two channels of \<open>run\<close> as \<open>chan\<close>.
\<close>

datatype ref = Ref_store | Ref_modelRoot | Ref_modelService | Ref_scriptClient
  | Ref_mqttServer | Ref_reGaDOM | Ref_deviceCol | Ref_intercon | Ref_veapHandlerStats

datatype chan = Chan_termSig | Chan_serveErr

record cert_generator =
  Hosts :: "string list"
  Organization :: string
  NotBefore :: time
  NotAfter :: time
  CACertFile :: string
  CAKeyFile :: string
  ServerCertFile :: string
  ServerKeyFile :: string

record http_server =
  Server_Addr :: string
  Server_AddrTLS :: string
  Server_CertFile :: string
  Server_KeyFile :: string
  Server_ServeErr :: chan

record model_root =
  Identifier :: string
  Title :: string
  Description :: string
  ItemRole :: string

record vendor_cfg =
  ServerName :: string
  ServerVersion :: string
  ServerDescription :: string
  VendorName :: string
  Collection :: ref

record model_service =
  Root :: ref

record script_client =
  Client_Addr :: string

record script_col =
  ScriptClient :: "script_client option"

record broker =
  Broker_Addr :: string
  Broker_AddrTLS :: string
  Broker_CertFile :: string
  Broker_KeyFile :: string
  Authenticator :: string
  Broker_ServeErr :: chan
  Service :: ref

record event_receiver =
  Broker :: ref
  Next :: ref

record interconnector =
  CCUAddr :: string
  Types :: "string list"
  IDPrefix :: string
  Receiver :: event_receiver
  ServerURL :: string
  BinRPCURL :: string

record device_col =
  DeviceCol_Interconnector :: "ref option"
  DeviceCol_ReGaDOM :: "ref option"
  DeviceCol_ModelService :: "ref option"

text \<open>
  The options of \<open>handlers.CORS\<close> (gorilla/handlers) that main.go passes, and the HTTP
  handlers it registers.
\<close>

datatype cors_option = AllowedMethods "string list" | AllowedOrigins "string list"
  | AllowCredentials

datatype http_handler =
    FileServer string
  | StripPrefix string http_handler
  | VeapHandler
  | HTTPAuthHandler http_handler ref string
  | CORS "cors_option list" http_handler
  | WebsocketHandler string

section \<open>Observable actions\<close>

datatype subsystem = HttpServer | SysVarCol | PrgCol | MqttServer | ReGaDOM | DeviceCol
  | Intercon

datatype log_arg = S string | I int | E error | LevelString log_level
  | TypesString "string list"

text \<open>
  Every call that leaves main.go (logging, the configuration store, the file system, the
  HTTP multiplexer, constructors and start/stop calls of the collaborators, channel
  operations) is one \<open>event\<close>; the trace of a run lists them in program order.
  \<open>Start HttpServer\<close> is \<open>httpServer.Startup()\<close>, \<open>Stop HttpServer\<close> is
  \<open>httpServer.Shutdown()\<close>; the other subsystems have \<open>Start()\<close> and \<open>Stop()\<close>.
  \<open>Stop s r\<close> carries the error \<open>r\<close> the stop call met internally: main.go calls the
  stop functions as statements, so no such result reaches it.
\<close>

datatype event =
    SetLevel log_level
  | SetWriter string
  | Log log_level "log_arg list"
  | StoreRead
  | StoreRLock
  | StoreRUnlock
  | StoreWrite
  | StoreClose
  | OpenFile string
  | CloseFile string
  | Stat string
  | Generate cert_generator
  | HttpHandle string http_handler
  | NewVendor vendor_cfg
  | NewConfig
  | NewHandlerStats
  | NewDeviceCol
  | NewSysVarCol
  | NewProgramCol
  | AuthRegister string
  | NewEventReceiver event_receiver
  | NewInterconnector interconnector
  | NewReGaDOM
  | NewRoomCol
  | NewFunctionCol
  | Start subsystem
  | Stop subsystem "error option"
  | MakeChan chan nat
  | SignalNotify chan
  | Sleep duration
  | Recv chan

section \<open>The process state and its environment\<close>

text \<open>
  \<open>stat_fault\<close> lists the paths whose lookup fails for a reason other than absence
  (a permission or an I/O error).
\<close>

datatype fault = PermissionDenied | IOFailure

fun errno_of :: "fault \<Rightarrow> errno" where
  "errno_of PermissionDenied = EACCES"
| "errno_of IOFailure = EIO"

record world =
  files :: "string \<rightharpoonup> string"
  stat_fault :: "string \<rightharpoonup> fault"
  trace :: "event list"
  store_Config :: config
  logFile :: "string option"
  httpServer :: "http_server option"
  modelRoot :: "model_root option"
  modelService :: "model_service option"
  sysVarCol :: "script_col option"
  prgCol :: "script_col option"
  mqttServer :: "broker option"
  reGaDOM :: "script_client option"
  deviceCol :: "device_col option"
  intercon :: "interconnector option"

text \<open>
  What the certificate generator (httputil.CertGenerator, go-lib) does when called:
  it succeeds with the four PEM contents it produced, or fails after having written
  some files.
\<close>

datatype gen_outcome = GenOk string string string string
  | GenFail error "(string \<times> string) list"

datatype select_case = CaseServeErr | CaseTermSig

text \<open>
  Everything the outside decides: the result of reading the configuration file, of
  opening the log file, the clock, the certificate generator, what arrives on the two
  channels of \<open>run\<close> (\<open>serveErr_send = Some v\<close>: a listener sends the value \<open>v\<close> of type
  \<open>error\<close> on the fatal-error channel; \<open>termSig_send\<close>: an INT or TERM signal arrives),
  which select case the Go runtime takes when both are ready, the errors met inside
  the stop calls, and the text the configuration store writes for a configuration
  (\<open>store_encode\<close>; the file format belongs to the store).
\<close>

record env =
  store_Read_result :: "error + config"
  os_OpenFile_result :: "error option"
  time_Now :: time
  Generate_outcome :: gen_outcome
  serveErr_send :: "error option option"
  termSig_send :: bool
  select_pick :: select_case
  stop_err :: "subsystem \<Rightarrow> error option"
  store_encode :: "config \<Rightarrow> string"

definition emit :: "event \<Rightarrow> world \<Rightarrow> world" where
  "emit e w = trace_update (\<lambda>t. t @ [e]) w"

text \<open>\<open>os.Stat\<close>, its \<open>FileInfo\<close> dropped as main.go drops it.\<close>

definition os_Stat :: "world \<Rightarrow> string \<Rightarrow> error option" where
  "os_Stat w name =
     (case stat_fault w name of
        Some f \<Rightarrow> Some (PathError (errno_of f))
      | None \<Rightarrow> (case files w name of None \<Rightarrow> Some (PathError ENOENT) | Some c \<Rightarrow> None))"

text \<open>\<open>strings.Join\<close>.\<close>

fun strings_Join :: "string list \<Rightarrow> string \<Rightarrow> string" where
  "strings_Join [] sep = []"
| "strings_Join [x] sep = x"
| "strings_Join (x # y # ys) sep = x @ sep @ strings_Join (y # ys) sep"

text \<open>
  Modelled from the spec: \<open>CertGenerator.Generate\<close> (go-lib, not under src/), "writes 4
  files | fails(IOError | CryptoError)", "Not atomic across the four writes". On success
  the four files named in the generator hold the produced contents; on failure the files
  written so far are on disk.
\<close>

definition CertGenerator_Generate ::
  "gen_outcome \<Rightarrow> cert_generator \<Rightarrow> (string \<rightharpoonup> string) \<Rightarrow> error option \<times> (string \<rightharpoonup> string)" where
  "CertGenerator_Generate out g fs =
     (case out of
        GenOk cacert cakey svrcert svrkey \<Rightarrow>
          (None, fs(CACertFile g \<mapsto> cacert, CAKeyFile g \<mapsto> cakey,
                    ServerCertFile g \<mapsto> svrcert, ServerKeyFile g \<mapsto> svrkey))
      | GenFail err written \<Rightarrow> (Some err, fs ++ map_of written))"

text \<open>
  Modelled from the spec: \<open>store.Write\<close> and \<open>store.Close\<close> (package rtcfg, not under
  src/). The Configuration Store "holds a versioned, mutable configuration snapshot;
  exposes locked read access and persistence", its interface is "{read, lock-for-read,
  lock-for-write, persist, close}", and the "durable configuration file" lies at a fixed
  path. \<open>store.Write\<close> persists the snapshot: the configuration file (\<open>FileName\<close> of the
  store, \<open>configFile\<close> in main.go) then holds the encoding of \<open>store.Config\<close>.
\<close>

definition store_Write :: "env \<Rightarrow> world \<Rightarrow> world" where
  "store_Write env w =
     emit StoreWrite
       (files_update (\<lambda>fs. fs(configFile \<mapsto> store_encode env (store_Config w))) w)"

definition store_Close :: "world \<Rightarrow> world" where
  "store_Close w = emit StoreClose w"

section \<open>configure, message, certificates\<close>

definition configure :: "env \<Rightarrow> world \<Rightarrow> error option \<times> world" where
  "configure env w =
     (let w = emit (SetLevel ErrorLevel) w;
          w = emit StoreRead w
      in case store_Read_result env of
           Inl err \<Rightarrow> (Some err, w)
         | Inr cfg \<Rightarrow>
            (let w = w\<lparr>store_Config := cfg\<rparr>;
                 w = emit StoreRLock w;
                 w = emit (SetLevel (Logging_Level (store_Config w))) w
             in if Logging_FilePath (store_Config w) \<noteq> [] then
                  (let path = Logging_FilePath (store_Config w);
                       w = emit (OpenFile path) w
                   in case os_OpenFile_result env of
                        Some err \<Rightarrow>
                          (Some (Errorf ''Opening log file failed: '' err),
                           emit StoreRUnlock (w\<lparr>logFile := None\<rparr>))
                      | None \<Rightarrow>
                          (let w = files_update (\<lambda>fs. case fs path of
                                                        None \<Rightarrow> fs(path \<mapsto> [])
                                                      | Some c \<Rightarrow> fs) w;
                               w = w\<lparr>logFile := Some path\<rparr>;
                               w = emit (SetWriter path) w
                           in (None, emit StoreRUnlock w)))
                else (None, emit StoreRUnlock w)))"

definition message :: "world \<Rightarrow> world" where
  "message w =
     (let w = emit (Log InfoLevel [S appDisplayName, S '' V'', S appVersion]) w;
          w = emit (Log InfoLevel [S appCopyright, S '' '', S appVendor]) w;
          w = emit StoreRLock w;
          cfg = store_Config w;
          w = emit (Log InfoLevel [S ''Configuration:'']) w;
          w = emit (Log InfoLevel [S ''  Log level: '', LevelString (Logging_Level cfg)]) w;
          w = emit (Log InfoLevel [S ''  Log file: '', S (Logging_FilePath cfg)]) w;
          w = emit (Log InfoLevel [S ''  Server host name: '', S (Host_Name cfg)]) w;
          w = emit (Log InfoLevel [S ''  Server address: '', S (Host_Address cfg)]) w;
          w = emit (Log InfoLevel [S ''  HTTP port: '', I (HTTP_Port cfg)]) w;
          w = emit (Log InfoLevel [S ''  HTTPS port: '', I (HTTP_PortTLS cfg)]) w;
          w = emit (Log InfoLevel
                [S ''  CORS origins: '', S (strings_Join (HTTP_CORSOrigins cfg) '','')]) w;
          w = emit (Log InfoLevel [S ''  MQTT port: '', I (MQTT_Port cfg)]) w;
          w = emit (Log InfoLevel [S ''  BINRPC Port: '', I (BINRPC_Port cfg)]) w;
          w = emit (Log InfoLevel [S ''  Secure MQTT port: '', I (MQTT_PortTLS cfg)]) w;
          w = emit (Log InfoLevel [S ''  CCU address: '', S (CCU_Address cfg)]) w;
          w = emit (Log InfoLevel [S ''  Interfaces: '', TypesString (CCU_Interfaces cfg)]) w;
          w = emit (Log InfoLevel [S ''  Init ID: '', S (CCU_InitID cfg)]) w
      in emit StoreRUnlock w)"

definition certificates :: "env \<Rightarrow> world \<Rightarrow> error option \<times> world" where
  "certificates env w =
     (let errCert = os_Stat w serverCertFile;
          w = emit (Stat serverCertFile) w;
          errKey = os_Stat w serverKeyFile;
          w = emit (Stat serverKeyFile) w
      in if \<not> os_IsNotExist errCert \<and> \<not> os_IsNotExist errKey then (None, w)
         else
           (let w = emit StoreRLock w;
                cfg = store_Config w;
                w = emit (Log InfoLevel [S ''Generating certificates'']) w;
                now = time_Now env;
                gen = \<lparr>Hosts = [Host_Name cfg],
                       Organization = appDisplayName,
                       NotBefore = now,
                       NotAfter = time_Add now (10 * 365 * 24 * time_Hour),
                       CACertFile = caCertFile,
                       CAKeyFile = caKeyFile,
                       ServerCertFile = serverCertFile,
                       ServerKeyFile = serverKeyFile\<rparr>;
                w = emit (Generate gen) w
            in case CertGenerator_Generate (Generate_outcome env) gen (files w) of
                 (Some err, fs) \<Rightarrow> (Some err, emit StoreRUnlock (w\<lparr>files := fs\<rparr>))
               | (None, fs) \<Rightarrow>
                   (let w = w\<lparr>files := fs\<rparr>;
                        w = emit (Log DebugLevel
                              [S ''Created certificate files: %s, %s, %s, %s'', S caCertFile,
                               S caKeyFile, S serverCertFile, S serverKeyFile]) w
                    in (None, emit StoreRUnlock w))))"

section \<open>Base services\<close>

definition newRoot :: "ref \<Rightarrow> world \<Rightarrow> model_root \<times> world" where
  "newRoot handlerStats w =
     (let r = \<lparr>Identifier = ''root'', Title = ''Root'',
                Description = ''Root of the CCU-Jack VEAP server'', ItemRole = ''domain''\<rparr>;
          w = emit (NewVendor \<lparr>ServerName = appDisplayName, ServerVersion = appVersion,
                              ServerDescription = appDescription, VendorName = appVendor,
                              Collection = Ref_modelRoot\<rparr>) w;
          w = emit NewConfig w;
          w = emit NewHandlerStats w
      in (r, w))"

text \<open>
  \<open>veapHandler\<close> is \<open>&veap.Handler{}\<close>: its field \<open>URLPrefix\<close> has Go's zero value,
  the empty string.
\<close>

definition veapHandler_URLPrefix :: string where
  "veapHandler_URLPrefix = []"

definition startupBase :: "chan \<Rightarrow> world \<Rightarrow> world" where
  "startupBase serveErr w =
     (let w = emit StoreRLock w;
          cfg = store_Config w;
          w = emit (HttpHandle ''/ui/'' (StripPrefix ''/ui'' (FileServer webUIDir))) w;
          w = w\<lparr>httpServer := Some \<lparr>Server_Addr = '':'' @ Itoa (HTTP_Port cfg),
                                     Server_AddrTLS = '':'' @ Itoa (HTTP_PortTLS cfg),
                                     Server_CertFile = serverCertFile,
                                     Server_KeyFile = serverKeyFile,
                                     Server_ServeErr = serveErr\<rparr>\<rparr>;
          w = emit (Start HttpServer) w;
          (r, w) = newRoot Ref_veapHandlerStats w;
          w = w\<lparr>modelRoot := Some r\<rparr>;
          w = w\<lparr>modelService := Some \<lparr>Root = Ref_modelRoot\<rparr>\<rparr>;
          handler = HTTPAuthHandler VeapHandler Ref_store ''CCU-Jack VEAP-Server'';
          allowedMethods = AllowedMethods [''GET'', ''PUT''];
          handler =
            (if length (HTTP_CORSOrigins cfg) = 0 then CORS [allowedMethods] handler
             else
               (let allowedOrigins = AllowedOrigins (HTTP_CORSOrigins cfg);
                    allowCredentials = AllowCredentials
                in CORS [allowedMethods, allowedOrigins, allowCredentials] handler));
          w = emit (HttpHandle (veapHandler_URLPrefix @ ''/'') handler) w
      in emit StoreRUnlock w)"

definition shutdownBase :: "env \<Rightarrow> world \<Rightarrow> world" where
  "shutdownBase env w = emit (Stop HttpServer (stop_err env HttpServer)) w"

section \<open>Application services\<close>

definition startupApp :: "chan \<Rightarrow> world \<Rightarrow> world" where
  "startupApp serveErr w =
     (let w = emit StoreRLock w;
          cfg = store_Config w;
          w = emit NewDeviceCol w;
          w = w\<lparr>deviceCol := Some \<lparr>DeviceCol_Interconnector = None, DeviceCol_ReGaDOM = None,
                                    DeviceCol_ModelService = None\<rparr>\<rparr>;
          scriptClient = \<lparr>Client_Addr = CCU_Address cfg\<rparr>;
          w = emit NewSysVarCol w;
          w = w\<lparr>sysVarCol := Some \<lparr>ScriptClient = None\<rparr>\<rparr>;
          w = sysVarCol_update (map_option (\<lambda>c. c\<lparr>ScriptClient := Some scriptClient\<rparr>)) w;
          w = emit (Start SysVarCol) w;
          w = emit NewProgramCol w;
          w = w\<lparr>prgCol := Some \<lparr>ScriptClient = None\<rparr>\<rparr>;
          w = prgCol_update (map_option (\<lambda>c. c\<lparr>ScriptClient := Some scriptClient\<rparr>)) w;
          w = emit (Start PrgCol) w;
          mqttAuth = ''configAuthHandler'';
          w = emit (AuthRegister mqttAuth) w;
          w = w\<lparr>mqttServer := Some \<lparr>Broker_Addr = ''tcp://:'' @ Itoa (MQTT_Port cfg),
                                     Broker_AddrTLS = ''tcp://:'' @ Itoa (MQTT_PortTLS cfg),
                                     Broker_CertFile = serverCertFile,
                                     Broker_KeyFile = serverKeyFile,
                                     Authenticator = mqttAuth,
                                     Broker_ServeErr = serveErr,
                                     Service = Ref_modelService\<rparr>\<rparr>;
          w = emit (Start MqttServer) w;
          w = emit (Log InfoLevel [S (''MQTT websocket path: '' @ mqttWsPath)]) w;
          mqttWs = WebsocketHandler ('':'' @ Itoa (MQTT_Port cfg));
          w = emit (HttpHandle mqttWsPath mqttWs) w;
          mqttReceiver = \<lparr>Broker = Ref_mqttServer, Next = Ref_deviceCol\<rparr>;
          w = emit (NewEventReceiver mqttReceiver) w;
          ic = \<lparr>CCUAddr = CCU_Address cfg,
                Types = CCU_Interfaces cfg,
                IDPrefix = CCU_InitID cfg @ ''-'',
                Receiver = mqttReceiver,
                ServerURL = ''http://'' @ Host_Address cfg @ '':'' @ Itoa (HTTP_Port cfg),
                BinRPCURL = ''xmlrpc_bin://'' @ Host_Address cfg @ '':'' @ Itoa (BINRPC_Port cfg)\<rparr>;
          w = w\<lparr>intercon := Some ic\<rparr>;
          w = emit (NewInterconnector ic) w;
          w = emit NewReGaDOM w;
          w = w\<lparr>reGaDOM := Some scriptClient\<rparr>;
          w = emit (Start ReGaDOM) w;
          w = emit NewRoomCol w;
          w = emit NewFunctionCol w;
          w = deviceCol_update (map_option (\<lambda>d. d\<lparr>DeviceCol_Interconnector := Some Ref_intercon\<rparr>)) w;
          w = deviceCol_update (map_option (\<lambda>d. d\<lparr>DeviceCol_ReGaDOM := Some Ref_reGaDOM\<rparr>)) w;
          w = deviceCol_update (map_option (\<lambda>d. d\<lparr>DeviceCol_ModelService := Some Ref_modelService\<rparr>)) w;
          w = emit (Start DeviceCol) w;
          w = emit (Start Intercon) w
      in emit StoreRUnlock w)"

definition shutdownApp :: "env \<Rightarrow> world \<Rightarrow> world" where
  "shutdownApp env w =
     (let w = emit (Stop Intercon (stop_err env Intercon)) w;
          w = emit (Stop DeviceCol (stop_err env DeviceCol)) w;
          w = emit (Stop ReGaDOM (stop_err env ReGaDOM)) w;
          w = emit (Stop MqttServer (stop_err env MqttServer)) w;
          w = emit (Stop PrgCol (stop_err env PrgCol)) w;
          w = emit (Stop SysVarCol (stop_err env SysVarCol)) w
      in w)"

section \<open>run and main\<close>

text \<open>
  The deferred calls of \<open>run\<close>. Go keeps them on a stack and executes them, last
  deferred first, when \<open>run\<close> returns.
\<close>

datatype deferred = Defer_logShuttingDown | Defer_storeWriteClose | Defer_shutdownBase
  | Defer_shutdownApp

fun run_deferred :: "env \<Rightarrow> deferred \<Rightarrow> world \<Rightarrow> world" where
  "run_deferred env Defer_logShuttingDown w = emit (Log InfoLevel [S ''Shutting down'']) w"
| "run_deferred env Defer_storeWriteClose w = store_Close (store_Write env w)"
| "run_deferred env Defer_shutdownBase w = shutdownBase env w"
| "run_deferred env Defer_shutdownApp w = shutdownApp env w"

text \<open>
  \<open>run\<close> either returns a value of type \<open>error\<close>, or blocks in its \<open>select\<close> for
  ever when neither channel ever delivers. A panic inside a collaborator is not part of
  this model: every call into a collaborator returns.
\<close>

datatype run_result = Returns "error option" world | Blocks world

definition return_from :: "env \<Rightarrow> deferred list \<Rightarrow> error option \<Rightarrow> world \<Rightarrow> run_result" where
  "return_from env ds r w = Returns r (fold (run_deferred env) ds w)"

text \<open>
  The \<open>select\<close> of \<open>run\<close>: it blocks until a case can proceed; when both can, the Go
  runtime takes one of them (\<open>select_pick\<close>).
\<close>

datatype select_result = Blocked | FromServeErr "error option" | FromTermSig

definition select_wait :: "env \<Rightarrow> select_result" where
  "select_wait env =
     (case (serveErr_send env, termSig_send env) of
        (None, False) \<Rightarrow> Blocked
      | (Some v, False) \<Rightarrow> FromServeErr v
      | (None, True) \<Rightarrow> FromTermSig
      | (Some v, True) \<Rightarrow>
          (case select_pick env of CaseServeErr \<Rightarrow> FromServeErr v | CaseTermSig \<Rightarrow> FromTermSig))"

definition run :: "env \<Rightarrow> world \<Rightarrow> run_result" where
  "run env w =
     (let ds = [Defer_logShuttingDown]
      in case configure env w of
           (Some err, w) \<Rightarrow> return_from env ds (Some err) w
         | (None, w) \<Rightarrow>
            (let ds = Defer_storeWriteClose # ds;
                 w = message w
             in case certificates env w of
                  (Some err, w) \<Rightarrow> return_from env ds (Some err) w
                | (None, w) \<Rightarrow>
                   (let termSig = Chan_termSig;
                        w = emit (MakeChan termSig 1) w;
                        w = emit (SignalNotify termSig) w;
                        serveErr = Chan_serveErr;
                        w = emit (MakeChan serveErr 0) w;
                        w = startupBase serveErr w;
                        ds = Defer_shutdownBase # ds;
                        w = startupApp serveErr w;
                        ds = Defer_shutdownApp # ds;
                        w = emit (Sleep (1 * time_Second)) w
                    in case select_wait env of
                         Blocked \<Rightarrow> Blocks w
                       | FromServeErr err \<Rightarrow>
                           return_from env ds err (emit (Recv serveErr) w)
                       | FromTermSig \<Rightarrow>
                           (let w = emit (Recv termSig) w;
                                w = emit (Log TraceLevel [S ''Shutdown signal received'']) w
                            in return_from env ds None w))))"

datatype process_result = Exit int world | Hangs world

definition main :: "env \<Rightarrow> world \<Rightarrow> process_result" where
  "main env w =
     (case run env w of
        Blocks w \<Rightarrow> Hangs w
      | Returns err w \<Rightarrow>
         (let w = (if err \<noteq> None then emit (Log ErrorLevel [E (the err)]) w else w);
              w = (case logFile w of Some f \<Rightarrow> emit (CloseFile f) w | None \<Rightarrow> w)
          in if err \<noteq> None then Exit 1 w else Exit 0 w))"

text \<open>
  The state of a freshly started process: nothing logged, no service handle assigned,
  the store's configuration not yet read.
\<close>

definition zero_config :: config where
  "zero_config = \<lparr>Logging_Level = OffLevel, Logging_FilePath = [], Host_Name = [],
     Host_Address = [], HTTP_Port = 0, HTTP_PortTLS = 0, HTTP_CORSOrigins = [], MQTT_Port = 0,
     MQTT_PortTLS = 0, BINRPC_Port = 0, CCU_Address = [], CCU_Interfaces = [],
     CCU_InitID = []\<rparr>"

definition initial_world :: "(string \<rightharpoonup> string) \<Rightarrow> (string \<rightharpoonup> fault) \<Rightarrow> world" where
  "initial_world fs faults =
     \<lparr>files = fs, stat_fault = faults, trace = [], store_Config = zero_config, logFile = None,
      httpServer = None, modelRoot = None, modelService = None, sysVarCol = None,
      prgCol = None, mqttServer = None, reGaDOM = None, deviceCol = None, intercon = None\<rparr>"

section \<open>Reading a trace\<close>

text \<open>The events a call added to the trace.\<close>

definition new_events :: "world \<Rightarrow> world \<Rightarrow> event list" where
  "new_events w w' = drop (length (trace w)) (trace w')"

text \<open>The subsystems started, the subsystems stopped, the generator calls and the
  channel receives of a trace, each in order.\<close>

fun started :: "event list \<Rightarrow> subsystem list" where
  "started [] = []"
| "started (Start s # es) = s # started es"
| "started (e # es) = started es"

fun stopped :: "event list \<Rightarrow> subsystem list" where
  "stopped [] = []"
| "stopped (Stop s r # es) = s # stopped es"
| "stopped (e # es) = stopped es"

fun generated :: "event list \<Rightarrow> cert_generator list" where
  "generated [] = []"
| "generated (Generate g # es) = g # generated es"
| "generated (e # es) = generated es"

fun received :: "event list \<Rightarrow> chan list" where
  "received [] = []"
| "received (Recv c # es) = c # received es"
| "received (e # es) = received es"

fun is_Stop :: "event \<Rightarrow> bool" where
  "is_Stop (Stop s r) = True"
| "is_Stop e = False"

text \<open>The handler registered at a pattern of the HTTP multiplexer.\<close>

fun registered :: "string \<Rightarrow> event list \<Rightarrow> http_handler option" where
  "registered p [] = None"
| "registered p (HttpHandle q h # es) = (if p = q then Some h else registered p es)"
| "registered p (e # es) = registered p es"

text \<open>\<open>precedes a b es\<close>: \<open>b\<close> occurs in \<open>es\<close>, and \<open>a\<close> occurs before its first
  occurrence.\<close>

definition precedes :: "'a \<Rightarrow> 'a \<Rightarrow> 'a list \<Rightarrow> bool" where
  "precedes a b es \<longleftrightarrow> b \<in> set es \<and> a \<in> set (takeWhile (\<lambda>x. x \<noteq> b) es)"

definition result_world :: "run_result \<Rightarrow> world" where
  "result_world r = (case r of Returns err w \<Rightarrow> w | Blocks w \<Rightarrow> w)"

text \<open>\<open>returned r = Some v\<close>: \<open>run\<close> returned the value \<open>v\<close> (\<open>None\<close> inside is \<open>nil\<close>).\<close>

definition returned :: "run_result \<Rightarrow> error option option" where
  "returned r = (case r of Returns err w \<Rightarrow> Some err | Blocks w \<Rightarrow> None)"

definition exit_code :: "process_result \<Rightarrow> int option" where
  "exit_code p = (case p of Exit c w \<Rightarrow> Some c | Hangs w \<Rightarrow> None)"

definition process_world :: "process_result \<Rightarrow> world" where
  "process_world p = (case p of Exit c w \<Rightarrow> w | Hangs w \<Rightarrow> w)"

section \<open>The event-forwarding chain\<close>

text \<open>
  Modelled from the spec: the event handling of \<open>mqtt.EventReceiver\<close> and of the
  Interconnector (packages mqtt and go-hmccu/itf, not under src/). "Each raw event is
  handed synchronously to an ordered handler chain": the Interconnector hands a raw
  event to its \<open>Receiver\<close>; "stage 1 publishes to the pub/sub broker", "stage 2 forwards
  the same event to the device collection", that is, to the receiver's \<open>Next\<close>.
\<close>

datatype 'e sink_action = PublishTo ref 'e | ForwardTo ref 'e

definition EventReceiver_handle :: "event_receiver \<Rightarrow> 'e \<Rightarrow> 'e sink_action list" where
  "EventReceiver_handle r e = [PublishTo (Broker r) e, ForwardTo (Next r) e]"

definition Interconnector_deliver :: "interconnector \<Rightarrow> 'e \<Rightarrow> 'e sink_action list" where
  "Interconnector_deliver ic e = EventReceiver_handle (Receiver ic) e"

section \<open>The CORS policy\<close>

text \<open>
  Modelled from the spec: the policy \<open>handlers.CORS\<close> (gorilla/handlers, not under src/)
  builds from its options. "if no origin list is configured, allow all origins without
  credentials; if an origin list is configured, allow only those origins and permit
  credentials". The origin \<open>*\<close> is the wildcard of the CORS standard: a policy that lists
  it allows every origin.
\<close>

record cors =
  allowedMethods :: "string list"
  allowedOrigins :: "string list"
  allowCredentials :: bool

definition defaultCors :: cors where
  "defaultCors = \<lparr>allowedMethods = [''GET'', ''HEAD'', ''POST''], allowedOrigins = [],
     allowCredentials = False\<rparr>"

fun apply_cors_option :: "cors_option \<Rightarrow> cors \<Rightarrow> cors" where
  "apply_cors_option (AllowedMethods ms) c = c\<lparr>allowedMethods := ms\<rparr>"
| "apply_cors_option (AllowedOrigins os) c =
     c\<lparr>allowedOrigins := (if ''*'' \<in> set os then [''*''] else os)\<rparr>"
| "apply_cors_option AllowCredentials c = c\<lparr>allowCredentials := True\<rparr>"

definition parseCORSOptions :: "cors_option list \<Rightarrow> cors" where
  "parseCORSOptions opts = fold apply_cors_option opts defaultCors"

definition isOriginAllowed :: "cors \<Rightarrow> string \<Rightarrow> bool" where
  "isOriginAllowed c origin \<longleftrightarrow>
     origin \<noteq> [] \<and> (allowedOrigins c = [] \<or> origin \<in> set (allowedOrigins c)
                     \<or> ''*'' \<in> set (allowedOrigins c))"

definition wildcard_origin :: "cors \<Rightarrow> bool" where
  "wildcard_origin c \<longleftrightarrow> allowedOrigins c = [] \<or> ''*'' \<in> set (allowedOrigins c)"

text \<open>The CORS policy wrapped around the handler registered at the VEAP prefix.\<close>

definition veap_cors :: "world \<Rightarrow> cors option" where
  "veap_cors w =
     (case registered (veapHandler_URLPrefix @ ''/'') (trace w) of
        Some (CORS opts h) \<Rightarrow> Some (parseCORSOptions opts)
      | _ \<Rightarrow> None)"

section \<open>The phases of run\<close>

text \<open>
  What \<open>run\<close> does between the certificate bootstrap and its \<open>select\<close>, and the
  deferred calls it executes when it returns from the \<open>select\<close>.
\<close>

definition run_startup :: "world \<Rightarrow> world" where
  "run_startup w =
     emit (Sleep (1 * time_Second))
       (startupApp Chan_serveErr
         (startupBase Chan_serveErr
           (emit (MakeChan Chan_serveErr 0)
             (emit (SignalNotify Chan_termSig)
               (emit (MakeChan Chan_termSig 1) w)))))"

definition run_shutdown :: "env \<Rightarrow> world \<Rightarrow> world" where
  "run_shutdown env w =
     fold (run_deferred env)
       [Defer_shutdownApp, Defer_shutdownBase, Defer_storeWriteClose, Defer_logShuttingDown] w"

text \<open>The state in which \<open>run\<close> leaves the certificate bootstrap.\<close>

definition bootstrapped :: "env \<Rightarrow> world \<Rightarrow> world" where
  "bootstrapped env w = snd (certificates env (message (snd (configure env w))))"

section \<open>Example inputs\<close>

definition example_config :: config where
  "example_config = \<lparr>Logging_Level = InfoLevel, Logging_FilePath = [], Host_Name = ''ccu-jack'',
     Host_Address = ''192.168.0.10'', HTTP_Port = 2121, HTTP_PortTLS = 2122,
     HTTP_CORSOrigins = [], MQTT_Port = 1883, MQTT_PortTLS = 8883, BINRPC_Port = 2123,
     CCU_Address = ''192.168.0.2'', CCU_Interfaces = [''BidCosRF''], CCU_InitID = ''CCU-Jack''\<rparr>"

text \<open>An environment in which everything succeeds and a termination signal arrives.\<close>

definition example_env :: env where
  "example_env = \<lparr>store_Read_result = Inr example_config, os_OpenFile_result = None,
     time_Now = 1600000000000000000,
     Generate_outcome = GenOk ''CA CERT'' ''CA KEY'' ''SERVER CERT'' ''SERVER KEY'',
     serveErr_send = None, termSig_send = True, select_pick = CaseTermSig,
     stop_err = (\<lambda>s. None),
     store_encode = (\<lambda>c. ''Host.Name='' @ Host_Name c)\<rparr>"

text \<open>The configuration file is malformed.\<close>

definition env_read_fails :: env where
  "env_read_fails = example_env\<lparr>store_Read_result := Inl (Failure ''invalid character'')\<rparr>"

text \<open>The certificate generator cannot write its files.\<close>

definition env_generate_fails :: env where
  "env_generate_fails =
     example_env\<lparr>Generate_outcome := GenFail (Failure ''read-only file system'') []\<rparr>"

text \<open>A listener fails while no signal arrives; the stop of the broker meets an error.\<close>

definition env_serve_error :: env where
  "env_serve_error =
     example_env\<lparr>serveErr_send := Some (Some (Failure ''Running MQTT server failed'')),
                  termSig_send := False,
                  stop_err := (\<lambda>s. if s = MqttServer then Some (Failure ''not running'') else None)\<rparr>"

text \<open>A listener error and a termination signal are both ready; the runtime takes the
  error.\<close>

definition env_both_ready :: env where
  "env_both_ready =
     example_env\<lparr>serveErr_send := Some (Some (Failure ''Running HTTP server failed'')),
                  select_pick := CaseServeErr\<rparr>"

text \<open>A listener sends \<open>nil\<close> on the fatal-error channel while no signal arrives.\<close>

definition env_nil_error :: env where
  "env_nil_error = example_env\<lparr>serveErr_send := Some None, termSig_send := False\<rparr>"

text \<open>File systems: no certificate file; both server files unreadable; a full server
  pair; a server certificate without its key, beside an older CA pair.\<close>

definition world_empty :: world where
  "world_empty = initial_world Map.empty Map.empty"

definition world_configured :: world where
  "world_configured = world_empty\<lparr>store_Config := example_config\<rparr>"

definition world_denied :: world where
  "world_denied = initial_world Map.empty
     [serverCertFile \<mapsto> PermissionDenied, serverKeyFile \<mapsto> IOFailure]"

definition world_pair :: world where
  "world_pair = initial_world
     [serverCertFile \<mapsto> ''OLD SERVER CERT'', serverKeyFile \<mapsto> ''OLD SERVER KEY'']
     Map.empty"

definition world_cert_only :: world where
  "world_cert_only = initial_world
     [caCertFile \<mapsto> ''OLD CA CERT'', caKeyFile \<mapsto> ''OLD CA KEY'',
      serverCertFile \<mapsto> ''OLD SERVER CERT'']
     Map.empty"

text \<open>A file system that holds an older configuration file and no certificate file.\<close>

definition world_with_config :: world where
  "world_with_config = initial_world [configFile \<mapsto> ''Host.Name=old-name''] Map.empty"

text \<open>A configuration whose CORS origin list is the wildcard.\<close>

definition world_wildcard :: world where
  "world_wildcard =
     world_empty\<lparr>store_Config := example_config\<lparr>HTTP_CORSOrigins := [''*'']\<rparr>\<rparr>"



section \<open>Basic facts about states and traces\<close>

lemma trace_emit [simp]: "trace (emit e w) = trace w @ [e]"
  by (simp add: emit_def)

lemma files_emit [simp]: "files (emit e w) = files w"
  by (simp add: emit_def)

lemma stat_fault_emit [simp]: "stat_fault (emit e w) = stat_fault w"
  by (simp add: emit_def)

lemma store_Config_emit [simp]: "store_Config (emit e w) = store_Config w"
  by (simp add: emit_def)

lemma logFile_emit [simp]: "logFile (emit e w) = logFile w"
  by (simp add: emit_def)

lemma intercon_emit [simp]: "intercon (emit e w) = intercon w"
  by (simp add: emit_def)

lemma trace_store_Write [simp]: "trace (store_Write env w) = trace w @ [StoreWrite]"
  by (simp add: store_Write_def)

lemma trace_store_Close [simp]: "trace (store_Close w) = trace w @ [StoreClose]"
  by (simp add: store_Close_def)

lemma files_store_Write [simp]:
  "files (store_Write env w) = (files w)(configFile \<mapsto> store_encode env (store_Config w))"
  by (simp add: store_Write_def)

lemma files_store_Close [simp]: "files (store_Close w) = files w"
  by (simp add: store_Close_def)

lemma store_Config_store_Write [simp]: "store_Config (store_Write env w) = store_Config w"
  by (simp add: store_Write_def)

lemma store_Config_store_Close [simp]: "store_Config (store_Close w) = store_Config w"
  by (simp add: store_Close_def)

lemma os_Stat_emit [simp]: "os_Stat (emit e w) name = os_Stat w name"
  by (simp add: os_Stat_def split: option.splits)

lemma fault_not_IsNotExist [simp]: "\<not> os_IsNotExist (Some (PathError (errno_of f)))"
  by (cases f) simp_all

lemma os_Stat_exists: "files w name \<noteq> None \<Longrightarrow> \<not> os_IsNotExist (os_Stat w name)"
  by (auto simp: os_Stat_def split: option.splits)

lemma os_Stat_frame:
  "files w' = files w \<Longrightarrow> stat_fault w' = stat_fault w \<Longrightarrow> os_Stat w' f = os_Stat w f"
  by (simp add: os_Stat_def split: option.splits)

lemma new_events_append: "trace w' = trace w @ es \<Longrightarrow> new_events w w' = es"
  by (simp add: new_events_def)

lemma new_events_self [simp]: "new_events w w = []"
  by (simp add: new_events_def)

lemma started_append [simp]: "started (xs @ ys) = started xs @ started ys"
  by (induction xs rule: started.induct) simp_all

lemma stopped_append [simp]: "stopped (xs @ ys) = stopped xs @ stopped ys"
  by (induction xs rule: stopped.induct) simp_all

lemma generated_append [simp]: "generated (xs @ ys) = generated xs @ generated ys"
  by (induction xs rule: generated.induct) simp_all

lemma received_append [simp]: "received (xs @ ys) = received xs @ received ys"
  by (induction xs rule: received.induct) simp_all

lemmas file_names = caCertFile_def caKeyFile_def serverCertFile_def serverKeyFile_def

section \<open>The certificate bootstrap\<close>

lemma certificates_present:
  assumes "\<not> os_IsNotExist (os_Stat w serverCertFile)" "\<not> os_IsNotExist (os_Stat w serverKeyFile)"
  shows "certificates env w = (None, emit (Stat serverKeyFile) (emit (Stat serverCertFile) w))"
  using assms by (simp add: certificates_def Let_def)

lemma certificates_generate_ok:
  assumes "os_IsNotExist (os_Stat w serverCertFile) \<or> os_IsNotExist (os_Stat w serverKeyFile)"
    and "Generate_outcome env = GenOk a b c d"
  shows "fst (certificates env w) = None"
    and "files (snd (certificates env w)) =
           (files w)(caCertFile \<mapsto> a, caKeyFile \<mapsto> b, serverCertFile \<mapsto> c, serverKeyFile \<mapsto> d)"
  using assms by (auto simp: certificates_def Let_def CertGenerator_Generate_def)

lemma certificates_generate_fail:
  assumes "os_IsNotExist (os_Stat w serverCertFile) \<or> os_IsNotExist (os_Stat w serverKeyFile)"
    and "Generate_outcome env = GenFail err written"
  shows "fst (certificates env w) = Some err"
  using assms by (auto simp: certificates_def Let_def CertGenerator_Generate_def)

lemma certificates_generated:
  assumes "os_IsNotExist (os_Stat w serverCertFile) \<or> os_IsNotExist (os_Stat w serverKeyFile)"
  shows "generated (new_events w (snd (certificates env w))) =
           [\<lparr>Hosts = [Host_Name (store_Config w)], Organization = appDisplayName,
             NotBefore = time_Now env,
             NotAfter = time_Add (time_Now env) (10 * 365 * 24 * time_Hour),
             CACertFile = caCertFile, CAKeyFile = caKeyFile,
             ServerCertFile = serverCertFile, ServerKeyFile = serverKeyFile\<rparr>]"
  using assms
  by (auto simp: certificates_def Let_def CertGenerator_Generate_def new_events_def
      split: gen_outcome.splits)

lemma certificates_success_pair_present:
  assumes "fst (certificates env w) = None"
  shows "\<not> os_IsNotExist (os_Stat (snd (certificates env w)) serverCertFile)
       \<and> \<not> os_IsNotExist (os_Stat (snd (certificates env w)) serverKeyFile)"
proof (cases "\<not> os_IsNotExist (os_Stat w serverCertFile) \<and> \<not> os_IsNotExist (os_Stat w serverKeyFile)")
  case True
  then show ?thesis by (simp add: certificates_present)
next
  case False
  then have absent: "os_IsNotExist (os_Stat w serverCertFile) \<or> os_IsNotExist (os_Stat w serverKeyFile)"
    by blast
  show ?thesis
  proof (cases "Generate_outcome env")
    case (GenOk a b c d)
    have "files (snd (certificates env w)) serverCertFile \<noteq> None"
      and "files (snd (certificates env w)) serverKeyFile \<noteq> None"
      using certificates_generate_ok(2) [OF absent GenOk] by (simp_all add: file_names)
    then show ?thesis by (simp add: os_Stat_exists)
  next
    case (GenFail err written)
    then show ?thesis using assms certificates_generate_fail [OF absent GenFail] by simp
  qed
qed

text \<open>
  C9: if \<open>os.Stat\<close> fails on the server certificate file and on the server key file, each
  with an error other than "does not exist" (a permission error, say), \<open>certificates\<close>
  treats the pair as present: it returns \<open>nil\<close>, the file system is unchanged, and its only
  actions are the two \<open>os.Stat\<close> calls, so nothing is generated and the errors are neither
  logged nor returned.
\<close>

theorem certificates_stat_error_is_present:
  assumes "os_Stat w serverCertFile = Some e1" and "\<not> os_IsNotExist (Some e1)"
    and "os_Stat w serverKeyFile = Some e2" and "\<not> os_IsNotExist (Some e2)"
  shows "fst (certificates env w) = None
       \<and> files (snd (certificates env w)) = files w
       \<and> new_events w (snd (certificates env w)) = [Stat serverCertFile, Stat serverKeyFile]"
  using assms by (simp add: certificates_present new_events_def)

theorem certificates_stat_error_is_present_witness:
  "os_Stat world_denied serverCertFile = Some (PathError EACCES)
 \<and> \<not> os_IsNotExist (Some (PathError EACCES))
 \<and> os_Stat world_denied serverKeyFile = Some (PathError EIO)
 \<and> \<not> os_IsNotExist (Some (PathError EIO))
 \<and> fst (certificates example_env world_denied) = None
 \<and> files (snd (certificates example_env world_denied)) = files world_denied
 \<and> new_events world_denied (snd (certificates example_env world_denied)) =
       [Stat serverCertFile, Stat serverKeyFile]"
proof -
  have h1: "os_Stat world_denied serverCertFile = Some (PathError EACCES)"
    by (simp add: os_Stat_def world_denied_def initial_world_def file_names)
  have h2: "\<not> os_IsNotExist (Some (PathError EACCES))" by simp
  have h3: "os_Stat world_denied serverKeyFile = Some (PathError EIO)"
    by (simp add: os_Stat_def world_denied_def initial_world_def file_names)
  have h4: "\<not> os_IsNotExist (Some (PathError EIO))" by simp
  show ?thesis using certificates_stat_error_is_present [OF h1 h2 h3 h4, of example_env] h1 h3 by simp
qed

text \<open>
  C5: \<open>certificates\<close> is idempotent. In every state in which the server certificate file
  and the server key file both exist it returns \<open>nil\<close>, leaves every file as it is and does
  not call the generator. Hence after an invocation that returned \<open>nil\<close>, the next
  invocation (whatever the clock and the generator would do) returns \<open>nil\<close>, calls no
  generator, and leaves all files, the four certificate files among them, as the first
  invocation left them.
\<close>

theorem certificates_idempotent:
  "(files w serverCertFile \<noteq> None \<and> files w serverKeyFile \<noteq> None \<longrightarrow>
      fst (certificates env w) = None
    \<and> files (snd (certificates env w)) = files w
    \<and> generated (new_events w (snd (certificates env w))) = [])
 \<and> (fst (certificates env w) = None \<longrightarrow>
      fst (certificates env' (snd (certificates env w))) = None
    \<and> files (snd (certificates env' (snd (certificates env w)))) = files (snd (certificates env w))
    \<and> generated (new_events (snd (certificates env w))
         (snd (certificates env' (snd (certificates env w))))) = [])"
proof -
  have present: "fst (certificates e v) = None \<and> files (snd (certificates e v)) = files v
      \<and> generated (new_events v (snd (certificates e v))) = []"
    if "\<not> os_IsNotExist (os_Stat v serverCertFile)" "\<not> os_IsNotExist (os_Stat v serverKeyFile)"
    for e v
    using that by (simp add: certificates_present new_events_def)
  show ?thesis
    using present [of w env] present [of "snd (certificates env w)" env']
      certificates_success_pair_present [of env w] os_Stat_exists [of w]
    by blast
qed

theorem certificates_idempotent_witness:
  "files world_pair serverCertFile \<noteq> None \<and> files world_pair serverKeyFile \<noteq> None
 \<and> fst (certificates example_env world_pair) = None
 \<and> files (snd (certificates example_env world_pair)) = files world_pair
 \<and> fst (certificates example_env world_empty) = None
 \<and> files (snd (certificates example_env world_empty)) serverCertFile = Some ''SERVER CERT''
 \<and> fst (certificates example_env (snd (certificates example_env world_empty))) = None
 \<and> files (snd (certificates example_env (snd (certificates example_env world_empty)))) =
     files (snd (certificates example_env world_empty))"
proof -
  have pair: "files world_pair serverCertFile \<noteq> None \<and> files world_pair serverKeyFile \<noteq> None"
    by (simp add: world_pair_def initial_world_def file_names)
  have absent: "os_IsNotExist (os_Stat world_empty serverCertFile)
      \<or> os_IsNotExist (os_Stat world_empty serverKeyFile)"
    by (simp add: os_Stat_def world_empty_def initial_world_def)
  have gen: "Generate_outcome example_env = GenOk ''CA CERT'' ''CA KEY'' ''SERVER CERT'' ''SERVER KEY''"
    by (simp add: example_env_def)
  have first: "fst (certificates example_env world_empty) = None"
    by (rule certificates_generate_ok(1) [OF absent gen])
  have written: "files (snd (certificates example_env world_empty)) serverCertFile
      = Some ''SERVER CERT''"
    by (simp add: certificates_generate_ok(2) [OF absent gen] file_names)
  show ?thesis
    using certificates_idempotent [of world_pair example_env example_env]
      certificates_idempotent [of world_empty example_env example_env] pair first written
    by simp
qed

text \<open>
  C6, as stated, fails: a server certificate without its key does not pass the presence
  test, so the generator runs and writes all four files. Here the server certificate and
  the CA certificate exist before the call and have other contents after it.
\<close>

theorem certificates_overwrites_lone_file:
  "files world_cert_only serverCertFile = Some ''OLD SERVER CERT''
 \<and> files (snd (certificates example_env world_cert_only)) serverCertFile = Some ''SERVER CERT''
 \<and> files world_cert_only caCertFile = Some ''OLD CA CERT''
 \<and> files (snd (certificates example_env world_cert_only)) caCertFile = Some ''CA CERT''"
proof -
  have absent: "os_IsNotExist (os_Stat world_cert_only serverCertFile)
      \<or> os_IsNotExist (os_Stat world_cert_only serverKeyFile)"
    by (simp add: os_Stat_def world_cert_only_def initial_world_def file_names)
  have gen: "Generate_outcome example_env = GenOk ''CA CERT'' ''CA KEY'' ''SERVER CERT'' ''SERVER KEY''"
    by (simp add: example_env_def)
  show ?thesis
    by (simp add: certificates_generate_ok(2) [OF absent gen])
       (simp add: world_cert_only_def initial_world_def file_names)
qed

text \<open>
  C6, amended: \<open>certificates\<close> never overwrites an existing server pair. In every state
  in which the server certificate file and the server key file both exist, each of the
  four certificate files is after the call what it was before.
\<close>

theorem certificates_keeps_existing_pair:
  assumes "files w serverCertFile \<noteq> None" and "files w serverKeyFile \<noteq> None"
  shows "\<forall>f \<in> {caCertFile, caKeyFile, serverCertFile, serverKeyFile}.
           files (snd (certificates env w)) f = files w f"
  using assms by (simp add: certificates_present os_Stat_exists)

theorem certificates_keeps_existing_pair_witness:
  "files world_pair serverCertFile \<noteq> None \<and> files world_pair serverKeyFile \<noteq> None
 \<and> files (snd (certificates example_env world_pair)) caCertFile = files world_pair caCertFile
 \<and> files (snd (certificates example_env world_pair)) caKeyFile = files world_pair caKeyFile
 \<and> files (snd (certificates example_env world_pair)) serverCertFile =
      Some ''OLD SERVER CERT''
 \<and> files (snd (certificates example_env world_pair)) serverKeyFile =
      Some ''OLD SERVER KEY''"
proof -
  have h1: "files world_pair serverCertFile \<noteq> None"
    by (simp add: world_pair_def initial_world_def file_names)
  have h2: "files world_pair serverKeyFile \<noteq> None"
    by (simp add: world_pair_def initial_world_def file_names)
  have c: "files world_pair serverCertFile = Some ''OLD SERVER CERT''"
    and k: "files world_pair serverKeyFile = Some ''OLD SERVER KEY''"
    by (simp_all add: world_pair_def initial_world_def file_names)
  show ?thesis using certificates_keeps_existing_pair [OF h1 h2, of example_env] h1 h2 c k
    by simp
qed

text \<open>
  C7: when \<open>certificates\<close> generates (one of the two server files does not exist), it calls
  the generator exactly once, with \<open>NotBefore\<close> the generation time and \<open>NotAfter\<close> that
  time plus ten years, a year counted as 365 days of 24 hours as the source writes it
  (315 360 000 seconds, a duration that fits Go's 64-bit \<open>time.Duration\<close>), for the
  configured host name, with the application display name as organization.
\<close>

theorem certificates_validity_window:
  assumes "os_IsNotExist (os_Stat w serverCertFile) \<or> os_IsNotExist (os_Stat w serverKeyFile)"
  shows "\<exists>g. generated (new_events w (snd (certificates env w))) = [g]
           \<and> NotBefore g = time_Now env
           \<and> NotAfter g = NotBefore g + 10 * 365 * 24 * time_Hour
           \<and> 10 * 365 * 24 * time_Hour = 315360000 * time_Second
           \<and> 10 * 365 * 24 * time_Hour < 2 ^ 63
           \<and> Hosts g = [Host_Name (store_Config w)]
           \<and> Organization g = appDisplayName"
  by (simp add: certificates_generated [OF assms] time_Add_def time_Hour_def time_Second_def)

theorem certificates_validity_window_witness:
  "(os_IsNotExist (os_Stat world_configured serverCertFile)
     \<or> os_IsNotExist (os_Stat world_configured serverKeyFile))
 \<and> (\<exists>g. generated (new_events world_configured
              (snd (certificates example_env world_configured))) = [g]
        \<and> NotBefore g = 1600000000000000000
        \<and> NotAfter g = 1915360000000000000
        \<and> Hosts g = [''ccu-jack'']
        \<and> Organization g = ''CCU-Jack'')"
proof -
  have absent: "os_IsNotExist (os_Stat world_configured serverCertFile)
      \<or> os_IsNotExist (os_Stat world_configured serverKeyFile)"
    by (simp add: os_Stat_def world_configured_def world_empty_def initial_world_def)
  have cfg: "store_Config world_configured = example_config"
    by (simp add: world_configured_def)
  show ?thesis
    using certificates_validity_window [OF absent, of example_env] absent
    by (auto simp: example_env_def cfg example_config_def appDisplayName_def time_Hour_def)
qed

section \<open>The events of each phase\<close>

lemma configure_extends:
  "trace (snd (configure env w)) = trace w @ new_events w (snd (configure env w))"
  by (simp add: configure_def Let_def new_events_def emit_def split: sum.splits option.splits)

lemma message_extends: "trace (message w) = trace w @ new_events w (message w)"
  by (simp add: message_def Let_def new_events_def emit_def)

lemma certificates_extends:
  "trace (snd (certificates env w)) = trace w @ new_events w (snd (certificates env w))"
  by (simp add: certificates_def Let_def new_events_def emit_def CertGenerator_Generate_def
      split: gen_outcome.splits)

lemma configure_quiet:
  "started (new_events w (snd (configure env w))) = []"
  "stopped (new_events w (snd (configure env w))) = []"
  "received (new_events w (snd (configure env w))) = []"
  "generated (new_events w (snd (configure env w))) = []"
  "NewDeviceCol \<notin> set (new_events w (snd (configure env w)))"
  "StoreWrite \<notin> set (new_events w (snd (configure env w)))"
  "\<forall>e \<in> set (new_events w (snd (configure env w))). \<not> is_Stop e"
  by (simp_all add: configure_def Let_def new_events_def split: sum.splits option.splits)

lemma message_quiet:
  "started (new_events w (message w)) = []"
  "stopped (new_events w (message w)) = []"
  "received (new_events w (message w)) = []"
  "generated (new_events w (message w)) = []"
  "NewDeviceCol \<notin> set (new_events w (message w))"
  "StoreWrite \<notin> set (new_events w (message w))"
  "\<forall>e \<in> set (new_events w (message w)). \<not> is_Stop e"
  by (simp_all add: message_def Let_def new_events_def)

lemma certificates_quiet:
  "started (new_events w (snd (certificates env w))) = []"
  "stopped (new_events w (snd (certificates env w))) = []"
  "received (new_events w (snd (certificates env w))) = []"
  "NewDeviceCol \<notin> set (new_events w (snd (certificates env w)))"
  "StoreWrite \<notin> set (new_events w (snd (certificates env w)))"
  "\<forall>e \<in> set (new_events w (snd (certificates env w))). \<not> is_Stop e"
  by (simp_all add: certificates_def Let_def new_events_def CertGenerator_Generate_def
      split: gen_outcome.splits)

lemma startupBase_events:
  "started (new_events w (startupBase c w)) = [HttpServer]"
  "stopped (new_events w (startupBase c w)) = []"
  "received (new_events w (startupBase c w)) = []"
  "NewDeviceCol \<notin> set (new_events w (startupBase c w))"
  "StoreWrite \<notin> set (new_events w (startupBase c w))"
  "\<forall>e \<in> set (new_events w (startupBase c w)). \<not> is_Stop e"
  by (simp_all add: startupBase_def newRoot_def Let_def new_events_def)

lemma startupApp_events:
  "started (new_events w (startupApp c w)) =
     [SysVarCol, PrgCol, MqttServer, ReGaDOM, DeviceCol, Intercon]"
  "stopped (new_events w (startupApp c w)) = []"
  "received (new_events w (startupApp c w)) = []"
  "NewDeviceCol \<in> set (new_events w (startupApp c w))"
  "StoreWrite \<notin> set (new_events w (startupApp c w))"
  "\<forall>e \<in> set (new_events w (startupApp c w)). \<not> is_Stop e"
  by (simp_all add: startupApp_def Let_def new_events_def)

lemma run_startup_extends:
  "trace (run_startup w) = trace w @ new_events w (run_startup w)"
  by (simp add: run_startup_def startupBase_def startupApp_def newRoot_def Let_def new_events_def)

lemma run_startup_events:
  "started (new_events w (run_startup w)) =
     [HttpServer, SysVarCol, PrgCol, MqttServer, ReGaDOM, DeviceCol, Intercon]"
  "stopped (new_events w (run_startup w)) = []"
  "received (new_events w (run_startup w)) = []"
  "NewDeviceCol \<in> set (new_events w (run_startup w))"
  "StoreWrite \<notin> set (new_events w (run_startup w))"
  "\<forall>e \<in> set (new_events w (run_startup w)). \<not> is_Stop e"
  by (simp_all add: run_startup_def startupBase_def startupApp_def newRoot_def Let_def
      new_events_def)

lemma run_shutdown_trace:
  "trace (run_shutdown env w) = trace w @
     [Stop Intercon (stop_err env Intercon), Stop DeviceCol (stop_err env DeviceCol),
      Stop ReGaDOM (stop_err env ReGaDOM), Stop MqttServer (stop_err env MqttServer),
      Stop PrgCol (stop_err env PrgCol), Stop SysVarCol (stop_err env SysVarCol),
      Stop HttpServer (stop_err env HttpServer), StoreWrite, StoreClose,
      Log InfoLevel [S ''Shutting down'']]"
  by (simp add: run_shutdown_def shutdownApp_def shutdownBase_def Let_def)

lemma bootstrapped_events:
  "new_events w (bootstrapped env w) =
     new_events w (snd (configure env w))
     @ new_events (snd (configure env w)) (message (snd (configure env w)))
     @ new_events (message (snd (configure env w))) (bootstrapped env w)"
proof -
  have "trace (bootstrapped env w) = trace w @
     (new_events w (snd (configure env w))
     @ new_events (snd (configure env w)) (message (snd (configure env w)))
     @ new_events (message (snd (configure env w))) (bootstrapped env w))"
    unfolding bootstrapped_def
    using configure_extends [of env w] message_extends [of "snd (configure env w)"]
      certificates_extends [of env "message (snd (configure env w))"]
    by simp
  then show ?thesis by (rule new_events_append)
qed

lemma bootstrapped_extends:
  "trace (bootstrapped env w) = trace w @ new_events w (bootstrapped env w)"
  unfolding bootstrapped_events
  unfolding bootstrapped_def
  using configure_extends [of env w] message_extends [of "snd (configure env w)"]
    certificates_extends [of env "message (snd (configure env w))"]
  by simp

lemma bootstrapped_quiet:
  "started (new_events w (bootstrapped env w)) = []"
  "stopped (new_events w (bootstrapped env w)) = []"
  "received (new_events w (bootstrapped env w)) = []"
  "NewDeviceCol \<notin> set (new_events w (bootstrapped env w))"
  "StoreWrite \<notin> set (new_events w (bootstrapped env w))"
  "\<forall>e \<in> set (new_events w (bootstrapped env w)). \<not> is_Stop e"
  unfolding bootstrapped_events
  by (simp_all add: bootstrapped_def configure_quiet message_quiet certificates_quiet ball_Un)

section \<open>The paths through run\<close>

lemma configure_read_fails:
  "store_Read_result env = Inl err \<Longrightarrow>
     configure env w = (Some err, emit StoreRead (emit (SetLevel ErrorLevel) w))"
  by (simp add: configure_def Let_def)

lemma configure_no_logfile:
  assumes "store_Read_result env = Inr cfg" and "Logging_FilePath cfg = []"
  shows "fst (configure env w) = None"
    and "files (snd (configure env w)) = files w"
    and "stat_fault (snd (configure env w)) = stat_fault w"
    and "store_Config (snd (configure env w)) = cfg"
  using assms by (simp_all add: configure_def Let_def emit_def)

lemma message_frame:
  "files (message w) = files w"
  "stat_fault (message w) = stat_fault w"
  "store_Config (message w) = store_Config w"
  by (simp_all add: message_def Let_def)

lemma select_wait_cases:
  "select_wait env = Blocked \<longleftrightarrow> serveErr_send env = None \<and> \<not> termSig_send env"
  "select_wait env = FromTermSig \<longleftrightarrow>
     termSig_send env \<and> (serveErr_send env = None \<or> select_pick env = CaseTermSig)"
  "select_wait env = FromServeErr v \<longleftrightarrow>
     serveErr_send env = Some v \<and> (\<not> termSig_send env \<or> select_pick env = CaseServeErr)"
  by (auto simp: select_wait_def split: option.splits select_case.splits bool.splits)

lemma run_configure_fails:
  assumes "fst (configure env w) = Some err"
  shows "run env w = Returns (Some err)
           (emit (Log InfoLevel [S ''Shutting down'']) (snd (configure env w)))"
  using assms by (cases "configure env w") (simp add: run_def return_from_def)

lemma run_certificates_fails:
  assumes "fst (configure env w) = None"
    and "fst (certificates env (message (snd (configure env w)))) = Some err"
  shows "run env w = Returns (Some err)
           (emit (Log InfoLevel [S ''Shutting down''])
             (store_Close (store_Write env (bootstrapped env w))))"
  using assms
  by (cases "configure env w"; cases "certificates env (message (snd (configure env w)))")
     (simp add: run_def return_from_def bootstrapped_def)

lemma run_select:
  assumes "fst (configure env w) = None"
    and "fst (certificates env (message (snd (configure env w)))) = None"
  shows "run env w =
           (case select_wait env of
              Blocked \<Rightarrow> Blocks (run_startup (bootstrapped env w))
            | FromServeErr v \<Rightarrow>
                Returns v (run_shutdown env
                  (emit (Recv Chan_serveErr) (run_startup (bootstrapped env w))))
            | FromTermSig \<Rightarrow>
                Returns None (run_shutdown env
                  (emit (Log TraceLevel [S ''Shutdown signal received''])
                    (emit (Recv Chan_termSig) (run_startup (bootstrapped env w))))))"
  using assms
  by (cases "configure env w"; cases "certificates env (message (snd (configure env w)))")
     (simp add: run_def return_from_def bootstrapped_def run_startup_def run_shutdown_def
        split: select_result.splits)

lemma run_events_configure_fails:
  assumes "fst (configure env w) = Some err"
  shows "returned (run env w) = Some (Some err)"
    and "new_events w (result_world (run env w)) =
           new_events w (snd (configure env w)) @ [Log InfoLevel [S ''Shutting down'']]"
    and "files (result_world (run env w)) = files (snd (configure env w))"
    and "logFile (result_world (run env w)) = logFile (snd (configure env w))"
proof -
  note r = run_configure_fails [OF assms]
  show "returned (run env w) = Some (Some err)" by (simp add: r returned_def)
  have "trace (result_world (run env w)) = trace w @
      (new_events w (snd (configure env w)) @ [Log InfoLevel [S ''Shutting down'']])"
    using configure_extends [of env w] by (simp add: r result_world_def)
  then show "new_events w (result_world (run env w)) =
           new_events w (snd (configure env w)) @ [Log InfoLevel [S ''Shutting down'']]"
    by (rule new_events_append)
  show "files (result_world (run env w)) = files (snd (configure env w))"
    by (simp add: r result_world_def)
  show "logFile (result_world (run env w)) = logFile (snd (configure env w))"
    by (simp add: r result_world_def)
qed

lemma run_events_certificates_fail:
  assumes "fst (configure env w) = None"
    and "fst (certificates env (message (snd (configure env w)))) = Some err"
  shows "returned (run env w) = Some (Some err)"
    and "new_events w (result_world (run env w)) =
           new_events w (bootstrapped env w)
           @ [StoreWrite, StoreClose, Log InfoLevel [S ''Shutting down'']]"
proof -
  note r = run_certificates_fails [OF assms]
  show "returned (run env w) = Some (Some err)" by (simp add: r returned_def)
  have "trace (result_world (run env w)) = trace w @
      (new_events w (bootstrapped env w)
       @ [StoreWrite, StoreClose, Log InfoLevel [S ''Shutting down'']])"
    using bootstrapped_extends [of env w] by (simp add: r result_world_def)
  then show "new_events w (result_world (run env w)) =
           new_events w (bootstrapped env w)
           @ [StoreWrite, StoreClose, Log InfoLevel [S ''Shutting down'']]"
    by (rule new_events_append)
qed

lemma run_events_blocked:
  assumes "fst (configure env w) = None"
    and "fst (certificates env (message (snd (configure env w)))) = None"
    and "select_wait env = Blocked"
  shows "returned (run env w) = None"
  by (simp add: run_select [OF assms(1,2)] assms(3) returned_def)

lemma run_events_serveErr:
  assumes "fst (configure env w) = None"
    and "fst (certificates env (message (snd (configure env w)))) = None"
    and "select_wait env = FromServeErr v"
  shows "returned (run env w) = Some v"
    and "new_events w (result_world (run env w)) =
           new_events w (bootstrapped env w)
           @ new_events (bootstrapped env w) (run_startup (bootstrapped env w))
           @ [Recv Chan_serveErr]
           @ [Stop Intercon (stop_err env Intercon), Stop DeviceCol (stop_err env DeviceCol),
        Stop ReGaDOM (stop_err env ReGaDOM), Stop MqttServer (stop_err env MqttServer),
        Stop PrgCol (stop_err env PrgCol), Stop SysVarCol (stop_err env SysVarCol),
        Stop HttpServer (stop_err env HttpServer), StoreWrite, StoreClose,
        Log InfoLevel [S ''Shutting down'']]"
proof -
  note r = run_select [OF assms(1,2)]
  show "returned (run env w) = Some v" by (simp add: r assms(3) returned_def)
  have "trace (result_world (run env w)) = trace w @
      (new_events w (bootstrapped env w)
           @ new_events (bootstrapped env w) (run_startup (bootstrapped env w))
           @ [Recv Chan_serveErr]
           @ [Stop Intercon (stop_err env Intercon), Stop DeviceCol (stop_err env DeviceCol),
        Stop ReGaDOM (stop_err env ReGaDOM), Stop MqttServer (stop_err env MqttServer),
        Stop PrgCol (stop_err env PrgCol), Stop SysVarCol (stop_err env SysVarCol),
        Stop HttpServer (stop_err env HttpServer), StoreWrite, StoreClose,
        Log InfoLevel [S ''Shutting down'']])"
    using bootstrapped_extends [of env w] run_startup_extends [of "bootstrapped env w"]
    by (simp add: r assms(3) result_world_def run_shutdown_trace)
  then show "new_events w (result_world (run env w)) =
           new_events w (bootstrapped env w)
           @ new_events (bootstrapped env w) (run_startup (bootstrapped env w))
           @ [Recv Chan_serveErr]
           @ [Stop Intercon (stop_err env Intercon), Stop DeviceCol (stop_err env DeviceCol),
        Stop ReGaDOM (stop_err env ReGaDOM), Stop MqttServer (stop_err env MqttServer),
        Stop PrgCol (stop_err env PrgCol), Stop SysVarCol (stop_err env SysVarCol),
        Stop HttpServer (stop_err env HttpServer), StoreWrite, StoreClose,
        Log InfoLevel [S ''Shutting down'']]"
    by (rule new_events_append)
qed

lemma run_events_termSig:
  assumes "fst (configure env w) = None"
    and "fst (certificates env (message (snd (configure env w)))) = None"
    and "select_wait env = FromTermSig"
  shows "returned (run env w) = Some None"
    and "new_events w (result_world (run env w)) =
           new_events w (bootstrapped env w)
           @ new_events (bootstrapped env w) (run_startup (bootstrapped env w))
           @ [Recv Chan_termSig, Log TraceLevel [S ''Shutdown signal received'']]
           @ [Stop Intercon (stop_err env Intercon), Stop DeviceCol (stop_err env DeviceCol),
        Stop ReGaDOM (stop_err env ReGaDOM), Stop MqttServer (stop_err env MqttServer),
        Stop PrgCol (stop_err env PrgCol), Stop SysVarCol (stop_err env SysVarCol),
        Stop HttpServer (stop_err env HttpServer), StoreWrite, StoreClose,
        Log InfoLevel [S ''Shutting down'']]"
proof -
  note r = run_select [OF assms(1,2)]
  show "returned (run env w) = Some None" by (simp add: r assms(3) returned_def)
  have "trace (result_world (run env w)) = trace w @
      (new_events w (bootstrapped env w)
           @ new_events (bootstrapped env w) (run_startup (bootstrapped env w))
           @ [Recv Chan_termSig, Log TraceLevel [S ''Shutdown signal received'']]
           @ [Stop Intercon (stop_err env Intercon), Stop DeviceCol (stop_err env DeviceCol),
        Stop ReGaDOM (stop_err env ReGaDOM), Stop MqttServer (stop_err env MqttServer),
        Stop PrgCol (stop_err env PrgCol), Stop SysVarCol (stop_err env SysVarCol),
        Stop HttpServer (stop_err env HttpServer), StoreWrite, StoreClose,
        Log InfoLevel [S ''Shutting down'']])"
    using bootstrapped_extends [of env w] run_startup_extends [of "bootstrapped env w"]
    by (simp add: r assms(3) result_world_def run_shutdown_trace)
  then show "new_events w (result_world (run env w)) =
           new_events w (bootstrapped env w)
           @ new_events (bootstrapped env w) (run_startup (bootstrapped env w))
           @ [Recv Chan_termSig, Log TraceLevel [S ''Shutdown signal received'']]
           @ [Stop Intercon (stop_err env Intercon), Stop DeviceCol (stop_err env DeviceCol),
        Stop ReGaDOM (stop_err env ReGaDOM), Stop MqttServer (stop_err env MqttServer),
        Stop PrgCol (stop_err env PrgCol), Stop SysVarCol (stop_err env SysVarCol),
        Stop HttpServer (stop_err env HttpServer), StoreWrite, StoreClose,
        Log InfoLevel [S ''Shutting down'']]"
    by (rule new_events_append)
qed

lemma main_returns:
  assumes "run env w = Returns r R"
  shows "main env w =
     (let R1 = (if r \<noteq> None then emit (Log ErrorLevel [E (the r)]) R else R);
          R2 = (case logFile R1 of Some f \<Rightarrow> emit (CloseFile f) R1 | None \<Rightarrow> R1)
      in if r \<noteq> None then Exit 1 R2 else Exit 0 R2)"
  by (simp add: main_def assms)

lemma exit_code_main:
  "exit_code (main env w) =
     (case returned (run env w) of
        None \<Rightarrow> None
      | Some None \<Rightarrow> Some 0
      | Some (Some e) \<Rightarrow> Some 1)"
  by (cases "run env w")
     (auto simp: main_def Let_def exit_code_def returned_def split: option.splits)

lemma configure_store_Config:
  "store_Read_result env = Inr cfg \<Longrightarrow> store_Config (snd (configure env w)) = cfg"
  by (simp add: configure_def Let_def split: option.splits)

lemma certificates_store_Config: "store_Config (snd (certificates env w)) = store_Config w"
  by (simp add: certificates_def Let_def CertGenerator_Generate_def split: gen_outcome.splits)

lemma bootstrapped_store_Config:
  "store_Config (bootstrapped env w) = store_Config (snd (configure env w))"
  by (simp add: bootstrapped_def certificates_store_Config message_frame)

lemma run_startup_frame:
  "files (run_startup w) = files w"
  "store_Config (run_startup w) = store_Config w"
  by (simp_all add: run_startup_def startupBase_def startupApp_def newRoot_def Let_def)

lemma run_shutdown_files:
  "files (run_shutdown env w) =
     (files w)(configFile \<mapsto> store_encode env (store_Config w))"
  by (simp add: run_shutdown_def shutdownApp_def shutdownBase_def Let_def)

lemma run_paths:
  obtains (configure_fails) err where "fst (configure env w) = Some err"
  | (certificates_fail) err where "fst (configure env w) = None"
      and "fst (certificates env (message (snd (configure env w)))) = Some err"
  | (blocked) "fst (configure env w) = None"
      and "fst (certificates env (message (snd (configure env w)))) = None"
      and "select_wait env = Blocked"
  | (serveErr) v where "fst (configure env w) = None"
      and "fst (certificates env (message (snd (configure env w)))) = None"
      and "select_wait env = FromServeErr v"
  | (termSig) "fst (configure env w) = None"
      and "fst (certificates env (message (snd (configure env w)))) = None"
      and "select_wait env = FromTermSig"
  by (cases "fst (configure env w)";
      cases "fst (certificates env (message (snd (configure env w))))";
      cases "select_wait env") auto

lemma dropWhile_no_Stop:
  "\<forall>e \<in> set xs. \<not> is_Stop e \<Longrightarrow>
     dropWhile (\<lambda>e. \<not> is_Stop e) (xs @ ys) = dropWhile (\<lambda>e. \<not> is_Stop e) ys"
  by (simp add: dropWhile_append2)

lemma bootstrap_generates:
  assumes "store_Read_result env = Inr cfg" and "Logging_FilePath cfg = []"
    and "os_IsNotExist (os_Stat w serverCertFile) \<or> os_IsNotExist (os_Stat w serverKeyFile)"
  shows "fst (configure env w) = None"
    and "Generate_outcome env = GenOk a b c d \<Longrightarrow>
           fst (certificates env (message (snd (configure env w)))) = None"
    and "Generate_outcome env = GenFail err ws \<Longrightarrow>
           fst (certificates env (message (snd (configure env w)))) = Some err"
proof -
  note c = configure_no_logfile [OF assms(1,2), of w]
  show "fst (configure env w) = None" by (rule c(1))
  have stat: "os_Stat (message (snd (configure env w))) f = os_Stat w f" for f
    by (rule os_Stat_frame) (simp_all add: message_frame c)
  have absent: "os_IsNotExist (os_Stat (message (snd (configure env w))) serverCertFile)
      \<or> os_IsNotExist (os_Stat (message (snd (configure env w))) serverKeyFile)"
    using assms(3) by (simp add: stat)
  show "Generate_outcome env = GenOk a b c d \<Longrightarrow>
           fst (certificates env (message (snd (configure env w)))) = None"
    by (rule certificates_generate_ok(1) [OF absent])
  show "Generate_outcome env = GenFail err ws \<Longrightarrow>
           fst (certificates env (message (snd (configure env w)))) = Some err"
    by (rule certificates_generate_fail [OF absent])
qed

lemma world_empty_absent:
  "os_IsNotExist (os_Stat world_empty serverCertFile)
     \<or> os_IsNotExist (os_Stat world_empty serverKeyFile)"
  by (simp add: os_Stat_def world_empty_def initial_world_def)

lemma example_config_no_logfile: "Logging_FilePath example_config = []"
  by (simp add: example_config_def)

section \<open>The callback URLs\<close>

lemma Itoa_examples:
  "Itoa 2121 = ''2121''" "Itoa 2123 = ''2123''" "Itoa 0 = ''0''" "Itoa (- 7) = ''-7''"
  by code_simp+

lemma startupApp_urls:
  "map_option ServerURL (intercon (startupApp Chan_serveErr world_configured)) =
     Some ''http://192.168.0.10:2121''"
  "map_option BinRPCURL (intercon (startupApp Chan_serveErr world_configured)) =
     Some ''xmlrpc_bin://192.168.0.10:2123''"
  by (simp_all add: startupApp_def Let_def world_configured_def example_config_def Itoa_examples)

section \<open>The event-forwarding chain is built before events arrive\<close>

text \<open>
  C1: \<open>startupApp\<close> leaves an Interconnector whose receiver is the MQTT event receiver
  with the device collection as \<open>Next\<close>, so a raw event is first published to the broker
  and then forwarded to the device collection. The broker is started before the receiver
  is built, the receiver is built before the Interconnector, the Interconnector is built
  before the device collection is started, and the device collection is started before
  the Interconnector is started. The Interconnector is the last subsystem started, in
  \<open>startupApp\<close> and counted from the base services on.
\<close>

theorem startupApp_forwarding_chain:
  "\<exists>ic. intercon (startupApp c w) = Some ic
      \<and> Receiver ic = \<lparr>Broker = Ref_mqttServer, Next = Ref_deviceCol\<rparr>
      \<and> Interconnector_deliver ic e = [PublishTo Ref_mqttServer e, ForwardTo Ref_deviceCol e]
      \<and> precedes (Start MqttServer) (NewEventReceiver (Receiver ic))
            (new_events w (startupApp c w))
      \<and> precedes (NewEventReceiver (Receiver ic)) (NewInterconnector ic)
            (new_events w (startupApp c w))
      \<and> precedes (NewInterconnector ic) (Start DeviceCol) (new_events w (startupApp c w))
      \<and> precedes (Start DeviceCol) (Start Intercon) (new_events w (startupApp c w))
      \<and> started (new_events w (startupApp c w)) =
            [SysVarCol, PrgCol, MqttServer, ReGaDOM, DeviceCol, Intercon]
      \<and> started (new_events w (run_startup w)) =
            [HttpServer, SysVarCol, PrgCol, MqttServer, ReGaDOM, DeviceCol, Intercon]"
  by (simp add: run_startup_events startupApp_events)
     (simp add: startupApp_def Let_def new_events_def precedes_def
        Interconnector_deliver_def EventReceiver_handle_def)

theorem startupApp_forwarding_chain_witness:
  "\<exists>ic. intercon (startupApp Chan_serveErr world_configured) = Some ic
      \<and> Receiver ic = \<lparr>Broker = Ref_mqttServer, Next = Ref_deviceCol\<rparr>
      \<and> Interconnector_deliver ic ''event'' =
            [PublishTo Ref_mqttServer ''event'', ForwardTo Ref_deviceCol ''event'']
      \<and> precedes (Start MqttServer) (NewEventReceiver (Receiver ic))
            (new_events world_configured (startupApp Chan_serveErr world_configured))
      \<and> precedes (NewEventReceiver (Receiver ic)) (NewInterconnector ic)
            (new_events world_configured (startupApp Chan_serveErr world_configured))
      \<and> precedes (NewInterconnector ic) (Start DeviceCol)
            (new_events world_configured (startupApp Chan_serveErr world_configured))
      \<and> precedes (Start DeviceCol) (Start Intercon)
            (new_events world_configured (startupApp Chan_serveErr world_configured))
      \<and> started (new_events world_configured (startupApp Chan_serveErr world_configured)) =
            [SysVarCol, PrgCol, MqttServer, ReGaDOM, DeviceCol, Intercon]
      \<and> started (new_events world_configured (run_startup world_configured)) =
            [HttpServer, SysVarCol, PrgCol, MqttServer, ReGaDOM, DeviceCol, Intercon]"
  by (rule startupApp_forwarding_chain [of Chan_serveErr world_configured "''event''"])

section \<open>Shutdown order and persistence of the configuration\<close>

text \<open>
  C2: whenever \<open>run\<close> returns after \<open>startupApp\<close> has begun (its first
  constructor call, \<open>NewDeviceCol\<close>, is in the trace), the trace from the first stop
  call on is: Interconnector, device collection, ReGaDOM, MQTT broker, program collection,
  system-variable collection, HTTP server, then \<open>store.Write\<close>, \<open>store.Close\<close> and the closing log line, whatever
  errors the stop calls met. The stop order is the reverse of the start order.
\<close>

theorem run_shutdown_reverse_order:
  assumes ret: "returned (run env w) \<noteq> None"
    and app: "NewDeviceCol \<in> set (new_events w (result_world (run env w)))"
  shows "dropWhile (\<lambda>e. \<not> is_Stop e) (new_events w (result_world (run env w))) =
       [Stop Intercon (stop_err env Intercon), Stop DeviceCol (stop_err env DeviceCol),
        Stop ReGaDOM (stop_err env ReGaDOM), Stop MqttServer (stop_err env MqttServer),
        Stop PrgCol (stop_err env PrgCol), Stop SysVarCol (stop_err env SysVarCol),
        Stop HttpServer (stop_err env HttpServer), StoreWrite, StoreClose,
        Log InfoLevel [S ''Shutting down'']]
    \<and> stopped (new_events w (result_world (run env w))) =
        [Intercon, DeviceCol, ReGaDOM, MqttServer, PrgCol, SysVarCol, HttpServer]
    \<and> stopped (new_events w (result_world (run env w))) =
        rev (started (new_events w (result_world (run env w))))"
proof (cases rule: run_paths [of env w])
  case (configure_fails err)
  then show ?thesis
    using app by (simp add: run_events_configure_fails(2) configure_quiet)
next
  case (certificates_fail err)
  then show ?thesis
    using app by (simp add: run_events_certificates_fail(2) bootstrapped_quiet)
next
  case blocked
  then show ?thesis using ret by (simp add: run_events_blocked)
next
  case (serveErr v)
  show ?thesis
    by (simp add: run_events_serveErr(2) [OF serveErr] dropWhile_no_Stop bootstrapped_quiet
        run_startup_events)
next
  case termSig
  show ?thesis
    by (simp add: run_events_termSig(2) [OF termSig] dropWhile_no_Stop bootstrapped_quiet
        run_startup_events)
qed

theorem run_shutdown_reverse_order_witness:
  "returned (run env_serve_error world_empty) \<noteq> None
 \<and> NewDeviceCol \<in> set (new_events world_empty (result_world (run env_serve_error world_empty)))
 \<and> dropWhile (\<lambda>e. \<not> is_Stop e)
      (new_events world_empty (result_world (run env_serve_error world_empty))) =
     [Stop Intercon None, Stop DeviceCol None, Stop ReGaDOM None,
      Stop MqttServer (Some (Failure ''not running'')), Stop PrgCol None,
      Stop SysVarCol None, Stop HttpServer None, StoreWrite, StoreClose,
      Log InfoLevel [S ''Shutting down'']]
 \<and> stopped (new_events world_empty (result_world (run env_serve_error world_empty))) =
     rev (started (new_events world_empty (result_world (run env_serve_error world_empty))))"
proof -
  have rd: "store_Read_result env_serve_error = Inr example_config"
    and gen: "Generate_outcome env_serve_error =
        GenOk ''CA CERT'' ''CA KEY'' ''SERVER CERT'' ''SERVER KEY''"
    by (simp_all add: env_serve_error_def example_env_def)
  note b = bootstrap_generates [OF rd example_config_no_logfile world_empty_absent]
  have sel: "select_wait env_serve_error =
      FromServeErr (Some (Failure ''Running MQTT server failed''))"
    by (simp add: select_wait_def env_serve_error_def example_env_def)
  note ev = run_events_serveErr [OF b(1) b(2) [OF gen] sel]
  have ret: "returned (run env_serve_error world_empty) \<noteq> None"
    by (simp add: ev(1))
  have app: "NewDeviceCol \<in>
      set (new_events world_empty (result_world (run env_serve_error world_empty)))"
    by (simp add: ev(2) run_startup_events)
  have se: "stop_err env_serve_error =
      (\<lambda>s. if s = MqttServer then Some (Failure ''not running'') else None)"
    by (simp add: env_serve_error_def example_env_def)
  show ?thesis
    using run_shutdown_reverse_order [OF ret app] ret app
    by (auto simp: se)
qed

lemma run_result_files:
  assumes "fst (configure env w) = None" and "returned (run env w) \<noteq> None"
  shows "files (result_world (run env w)) =
     (files (bootstrapped env w))
       (configFile \<mapsto> store_encode env (store_Config (snd (configure env w))))"
proof (cases rule: run_paths [of env w])
  case (configure_fails err)
  then show ?thesis using assms(1) by simp
next
  case (certificates_fail err)
  show ?thesis
    by (simp add: run_certificates_fails [OF certificates_fail] result_world_def
        bootstrapped_store_Config)
next
  case blocked
  then show ?thesis using assms(2) by (simp add: run_events_blocked)
next
  case (serveErr v)
  show ?thesis
    by (simp add: run_select [OF serveErr(1,2)] serveErr(3) result_world_def
        run_shutdown_files run_startup_frame bootstrapped_store_Config)
next
  case termSig
  show ?thesis
    by (simp add: run_select [OF termSig(1,2)] termSig(3) result_world_def
        run_shutdown_files run_startup_frame bootstrapped_store_Config)
qed

lemma world_with_config_absent:
  "os_IsNotExist (os_Stat world_with_config serverCertFile)
     \<or> os_IsNotExist (os_Stat world_with_config serverKeyFile)"
  by (simp add: os_Stat_def world_with_config_def initial_world_def configFile_def file_names)

lemma run_ends_with_store_write:
  "(fst (configure env w) = None \<and> returned (run env w) \<noteq> None \<longrightarrow>
      (\<exists>pre. new_events w (result_world (run env w)) =
          pre @ [StoreWrite, StoreClose, Log InfoLevel [S ''Shutting down'']]))
 \<and> (\<forall>err. fst (configure env w) = None
        \<and> fst (certificates env (message (snd (configure env w)))) = Some err \<longrightarrow>
      returned (run env w) = Some (Some err)
    \<and> started (new_events w (result_world (run env w))) = []
    \<and> new_events w (result_world (run env w)) =
        new_events w (bootstrapped env w)
        @ [StoreWrite, StoreClose, Log InfoLevel [S ''Shutting down'']])"
proof (cases rule: run_paths [of env w])
  case (configure_fails err)
  then show ?thesis by simp
next
  case (certificates_fail err)
  then show ?thesis
    by (simp add: run_events_certificates_fail [OF certificates_fail] bootstrapped_quiet)
next
  case blocked
  then show ?thesis by (simp add: run_events_blocked)
next
  case (serveErr v)
  have "new_events w (result_world (run env w)) =
      (new_events w (bootstrapped env w)
       @ new_events (bootstrapped env w) (run_startup (bootstrapped env w))
       @ [Recv Chan_serveErr, Stop Intercon (stop_err env Intercon),
          Stop DeviceCol (stop_err env DeviceCol), Stop ReGaDOM (stop_err env ReGaDOM),
          Stop MqttServer (stop_err env MqttServer), Stop PrgCol (stop_err env PrgCol),
          Stop SysVarCol (stop_err env SysVarCol), Stop HttpServer (stop_err env HttpServer)])
      @ [StoreWrite, StoreClose, Log InfoLevel [S ''Shutting down'']]"
    by (simp add: run_events_serveErr(2) [OF serveErr])
  then have "\<exists>pre. new_events w (result_world (run env w)) =
      pre @ [StoreWrite, StoreClose, Log InfoLevel [S ''Shutting down'']]"
    by blast
  then show ?thesis using serveErr by simp
next
  case termSig
  have "new_events w (result_world (run env w)) =
      (new_events w (bootstrapped env w)
       @ new_events (bootstrapped env w) (run_startup (bootstrapped env w))
       @ [Recv Chan_termSig, Log TraceLevel [S ''Shutdown signal received''],
          Stop Intercon (stop_err env Intercon),
          Stop DeviceCol (stop_err env DeviceCol), Stop ReGaDOM (stop_err env ReGaDOM),
          Stop MqttServer (stop_err env MqttServer), Stop PrgCol (stop_err env PrgCol),
          Stop SysVarCol (stop_err env SysVarCol), Stop HttpServer (stop_err env HttpServer)])
      @ [StoreWrite, StoreClose, Log InfoLevel [S ''Shutting down'']]"
    by (simp add: run_events_termSig(2) [OF termSig])
  then have "\<exists>pre. new_events w (result_world (run env w)) =
      pre @ [StoreWrite, StoreClose, Log InfoLevel [S ''Shutting down'']]"
    by blast
  then show ?thesis using termSig by simp
qed

text \<open>
  C10: once \<open>configure\<close> has succeeded, every return of \<open>run\<close> ends with \<open>store.Write\<close>,
  \<open>store.Close\<close> and the closing log line, and the configuration file on disk then holds
  the encoding of the configuration that was read, whatever it held before; every other
  file is as the certificate bootstrap left it. In particular, when the certificate
  bootstrap fails, \<open>run\<close> returns that error, no listener or subsystem has been started,
  and the configuration file is still rewritten and the store closed.
\<close>

theorem run_persists_after_configure:
  "(fst (configure env w) = None \<and> returned (run env w) \<noteq> None \<longrightarrow>
      (\<exists>pre. new_events w (result_world (run env w)) =
          pre @ [StoreWrite, StoreClose, Log InfoLevel [S ''Shutting down'']])
    \<and> files (result_world (run env w)) =
        (files (bootstrapped env w))
          (configFile \<mapsto> store_encode env (store_Config (snd (configure env w)))))
 \<and> (store_Read_result env = Inr cfg \<longrightarrow> store_Config (snd (configure env w)) = cfg)
 \<and> (\<forall>err. fst (configure env w) = None
        \<and> fst (certificates env (message (snd (configure env w)))) = Some err \<longrightarrow>
      returned (run env w) = Some (Some err)
    \<and> started (new_events w (result_world (run env w))) = []
    \<and> new_events w (result_world (run env w)) =
        new_events w (bootstrapped env w)
        @ [StoreWrite, StoreClose, Log InfoLevel [S ''Shutting down'']])"
  using run_ends_with_store_write [of env w] run_result_files [of env w]
    configure_store_Config [of env cfg w]
  by blast

theorem run_persists_after_configure_witness:
  "fst (configure env_generate_fails world_with_config) = None
 \<and> fst (certificates env_generate_fails
          (message (snd (configure env_generate_fails world_with_config)))) =
      Some (Failure ''read-only file system'')
 \<and> returned (run env_generate_fails world_with_config) =
      Some (Some (Failure ''read-only file system''))
 \<and> started (new_events world_with_config
        (result_world (run env_generate_fails world_with_config))) = []
 \<and> (\<exists>pre. new_events world_with_config
        (result_world (run env_generate_fails world_with_config)) =
        pre @ [StoreWrite, StoreClose, Log InfoLevel [S ''Shutting down'']])
 \<and> files world_with_config configFile = Some ''Host.Name=old-name''
 \<and> files (result_world (run env_generate_fails world_with_config)) configFile =
      Some ''Host.Name=ccu-jack''"
proof -
  have rd: "store_Read_result env_generate_fails = Inr example_config"
    and gen: "Generate_outcome env_generate_fails =
        GenFail (Failure ''read-only file system'') []"
    and enc: "store_encode env_generate_fails example_config = ''Host.Name=ccu-jack''"
    by (simp_all add: env_generate_fails_def example_env_def example_config_def)
  note b = bootstrap_generates [OF rd example_config_no_logfile world_with_config_absent]
  note cfg = b(1)
  note cert = b(3) [OF gen]
  have before: "files world_with_config configFile = Some ''Host.Name=old-name''"
    by (simp add: world_with_config_def initial_world_def)
  note t = run_persists_after_configure [of env_generate_fails world_with_config example_config]
  have ret: "returned (run env_generate_fails world_with_config) =
      Some (Some (Failure ''read-only file system''))"
    using t cfg cert by blast
  have sc: "store_Config (snd (configure env_generate_fails world_with_config)) = example_config"
    using t rd by blast
  have after: "files (result_world (run env_generate_fails world_with_config)) configFile =
      Some ''Host.Name=ccu-jack''"
    using t cfg ret by (simp add: sc enc)
  show ?thesis
    using t cfg cert before after by auto
qed

section \<open>Exit contract\<close>

text \<open>
  C4: when reading the configuration fails, \<open>run\<close> returns that error after two actions
  (setting the log level, the failed read) and the closing log line: no \<open>os.Stat\<close>, no
  generator call, nothing started, and every file as it was. \<open>main\<close> then logs the error
  (closing the log file if one had been open) and exits with code 1, the files still
  unchanged.
\<close>

theorem run_config_error_before_bootstrap:
  assumes "store_Read_result env = Inl err"
  shows "returned (run env w) = Some (Some err)
    \<and> new_events w (result_world (run env w)) =
        [SetLevel ErrorLevel, StoreRead, Log InfoLevel [S ''Shutting down'']]
    \<and> files (result_world (run env w)) = files w
    \<and> exit_code (main env w) = Some 1
    \<and> files (process_world (main env w)) = files w
    \<and> new_events w (process_world (main env w)) =
        [SetLevel ErrorLevel, StoreRead, Log InfoLevel [S ''Shutting down''],
         Log ErrorLevel [E err]]
        @ (case logFile w of None \<Rightarrow> [] | Some f \<Rightarrow> [CloseFile f])"
proof -
  note c = configure_read_fails [OF assms, of w]
  have r: "run env w = Returns (Some err)
      (emit (Log InfoLevel [S ''Shutting down''])
        (emit StoreRead (emit (SetLevel ErrorLevel) w)))"
    using run_configure_fails [of env w err] by (simp add: c)
  show ?thesis
    by (cases "logFile w")
       (simp_all add: r main_returns [OF r] returned_def result_world_def exit_code_def
          process_world_def new_events_def)
qed

theorem run_config_error_before_bootstrap_witness:
  "store_Read_result env_read_fails = Inl (Failure ''invalid character'')
 \<and> returned (run env_read_fails world_empty) = Some (Some (Failure ''invalid character''))
 \<and> new_events world_empty (result_world (run env_read_fails world_empty)) =
      [SetLevel ErrorLevel, StoreRead, Log InfoLevel [S ''Shutting down'']]
 \<and> files (process_world (main env_read_fails world_empty)) = Map.empty
 \<and> exit_code (main env_read_fails world_empty) = Some 1"
proof -
  have h: "store_Read_result env_read_fails = Inl (Failure ''invalid character'')"
    by (simp add: env_read_fails_def)
  have fs: "files world_empty = Map.empty"
    by (simp add: world_empty_def initial_world_def)
  show ?thesis using run_config_error_before_bootstrap [OF h, of world_empty] h fs by simp
qed

text \<open>
  C3, as stated, fails: \<open>run\<close> returns the value it receives from the fatal-error
  channel unchanged, and a value of Go's type \<open>error\<close> can be \<open>nil\<close>. When a listener
  sends \<open>nil\<close> and no signal arrives, the \<open>select\<close> takes the fatal-error case, yet
  \<open>run\<close> returns \<open>nil\<close> and \<open>main\<close> exits with code 0.
\<close>

theorem run_returns_nil_without_signal:
  "serveErr_send env_nil_error = Some None
 \<and> \<not> termSig_send env_nil_error
 \<and> select_wait env_nil_error = FromServeErr None
 \<and> received (new_events world_empty (result_world (run env_nil_error world_empty))) =
      [Chan_serveErr]
 \<and> returned (run env_nil_error world_empty) = Some None
 \<and> exit_code (main env_nil_error world_empty) = Some 0"
proof -
  have rd: "store_Read_result env_nil_error = Inr example_config"
    and gen: "Generate_outcome env_nil_error =
        GenOk ''CA CERT'' ''CA KEY'' ''SERVER CERT'' ''SERVER KEY''"
    and send: "serveErr_send env_nil_error = Some None"
    and sig: "\<not> termSig_send env_nil_error"
    by (simp_all add: env_nil_error_def example_env_def)
  note b = bootstrap_generates [OF rd example_config_no_logfile world_empty_absent]
  have sel: "select_wait env_nil_error = FromServeErr None"
    by (simp add: select_wait_cases send sig)
  note ev = run_events_serveErr [OF b(1) b(2) [OF gen] sel]
  show ?thesis
    by (simp add: send sig sel ev exit_code_main bootstrapped_quiet run_startup_events)
qed

text \<open>
  C3, amended: let the value a listener sends on the fatal-error channel be an error, not
  \<open>nil\<close>. Then \<open>run\<close> returns \<open>nil\<close> exactly when \<open>configure\<close> and \<open>certificates\<close>
  succeeded and the \<open>select\<close> took the termination-signal case, and \<open>main\<close> exits with
  code 0 exactly then. When \<open>configure\<close> fails, when \<open>certificates\<close> fails, or when the
  \<open>select\<close> receives an error from the fatal-error channel, \<open>run\<close> returns that error and
  \<open>main\<close> exits with code 1. When an error and a signal are both ready, exactly one
  receive happens: from the signal channel if and only if \<open>run\<close> returns \<open>nil\<close>, from the
  fatal-error channel if and only if \<open>run\<close> returns the error sent.
\<close>

theorem run_exit_contract:
  assumes "serveErr_send env \<noteq> Some None"
  shows "(returned (run env w) = Some None \<longleftrightarrow>
            fst (configure env w) = None
          \<and> fst (certificates env (message (snd (configure env w)))) = None
          \<and> select_wait env = FromTermSig)
    \<and> (exit_code (main env w) = Some 0 \<longleftrightarrow> returned (run env w) = Some None)
    \<and> (\<forall>e. fst (configure env w) = Some e \<longrightarrow>
          returned (run env w) = Some (Some e) \<and> exit_code (main env w) = Some 1)
    \<and> (\<forall>e. fst (configure env w) = None
          \<and> fst (certificates env (message (snd (configure env w)))) = Some e \<longrightarrow>
          returned (run env w) = Some (Some e) \<and> exit_code (main env w) = Some 1)
    \<and> (\<forall>e. fst (configure env w) = None
          \<and> fst (certificates env (message (snd (configure env w)))) = None
          \<and> select_wait env = FromServeErr (Some e) \<longrightarrow>
          returned (run env w) = Some (Some e) \<and> exit_code (main env w) = Some 1)
    \<and> (fst (configure env w) = None
          \<and> fst (certificates env (message (snd (configure env w)))) = None
          \<and> serveErr_send env \<noteq> None \<and> termSig_send env \<longrightarrow>
          (\<exists>c. received (new_events w (result_world (run env w))) = [c]
             \<and> (c = Chan_termSig \<longleftrightarrow> returned (run env w) = Some None)
             \<and> (c = Chan_serveErr \<longleftrightarrow> returned (run env w) = serveErr_send env)))"
proof (cases rule: run_paths [of env w])
  case (configure_fails err)
  then show ?thesis
    by (simp add: run_events_configure_fails(1) exit_code_main)
next
  case (certificates_fail err)
  then show ?thesis
    by (simp add: run_events_certificates_fail(1) exit_code_main)
next
  case blocked
  then show ?thesis
    using select_wait_cases(1) [of env]
    by (simp add: run_events_blocked exit_code_main)
next
  case (serveErr v)
  from serveErr(3) have v: "serveErr_send env = Some v"
    by (simp add: select_wait_cases)
  with assms obtain e where e: "v = Some e" by (cases v) auto
  show ?thesis
    using serveErr v e
    by (simp add: run_events_serveErr [OF serveErr] exit_code_main bootstrapped_quiet
        run_startup_events)
next
  case termSig
  show ?thesis
    using termSig assms
    by (auto simp: run_events_termSig [OF termSig] exit_code_main bootstrapped_quiet
        run_startup_events)
qed

theorem run_exit_contract_witness:
  "serveErr_send env_both_ready \<noteq> Some None
 \<and> returned (run env_both_ready world_empty) =
      Some (Some (Failure ''Running HTTP server failed''))
 \<and> exit_code (main env_both_ready world_empty) = Some 1
 \<and> received (new_events world_empty (result_world (run env_both_ready world_empty))) =
      [Chan_serveErr]
 \<and> serveErr_send example_env \<noteq> Some None
 \<and> returned (run example_env world_empty) = Some None
 \<and> exit_code (main example_env world_empty) = Some 0"
proof -
  have rd: "store_Read_result env_both_ready = Inr example_config"
    and gen: "Generate_outcome env_both_ready =
        GenOk ''CA CERT'' ''CA KEY'' ''SERVER CERT'' ''SERVER KEY''"
    and send: "serveErr_send env_both_ready = Some (Some (Failure ''Running HTTP server failed''))"
    and sig: "termSig_send env_both_ready"
    by (simp_all add: env_both_ready_def example_env_def)
  note b = bootstrap_generates [OF rd example_config_no_logfile world_empty_absent]
  have sel: "select_wait env_both_ready =
      FromServeErr (Some (Failure ''Running HTTP server failed''))"
    by (simp add: select_wait_def env_both_ready_def example_env_def)
  have h: "serveErr_send env_both_ready \<noteq> Some None"
    by (simp add: send)
  have rd': "store_Read_result example_env = Inr example_config"
    and gen': "Generate_outcome example_env =
        GenOk ''CA CERT'' ''CA KEY'' ''SERVER CERT'' ''SERVER KEY''"
    by (simp_all add: example_env_def)
  note b' = bootstrap_generates [OF rd' example_config_no_logfile world_empty_absent]
  have sel': "select_wait example_env = FromTermSig"
    by (simp add: select_wait_def example_env_def)
  have h': "serveErr_send example_env \<noteq> Some None"
    by (simp add: example_env_def)
  have one: "returned (run env_both_ready world_empty) =
        Some (Some (Failure ''Running HTTP server failed''))
      \<and> exit_code (main env_both_ready world_empty) = Some 1
      \<and> received (new_events world_empty (result_world (run env_both_ready world_empty))) =
        [Chan_serveErr]"
    using run_exit_contract [OF h, of world_empty] b(1) b(2) [OF gen] sel send sig
    by auto
  have two: "returned (run example_env world_empty) = Some None
      \<and> exit_code (main example_env world_empty) = Some 0"
    using run_exit_contract [OF h', of world_empty] b'(1) b'(2) [OF gen'] sel'
    by simp
  show ?thesis using h h' one two by simp
qed

section \<open>The CORS policy of the VEAP handler\<close>

lemma registered_append:
  "registered p (xs @ ys) =
     (case registered p xs of Some h \<Rightarrow> Some h | None \<Rightarrow> registered p ys)"
  by (induction p xs rule: registered.induct) simp_all

lemma startupBase_cors:
  assumes "registered (veapHandler_URLPrefix @ ''/'') (trace w) = None"
  shows "veap_cors (startupBase c w) =
     Some (if HTTP_CORSOrigins (store_Config w) = []
           then \<lparr>allowedMethods = [''GET'', ''PUT''], allowedOrigins = [],
                 allowCredentials = False\<rparr>
           else \<lparr>allowedMethods = [''GET'', ''PUT''],
                 allowedOrigins = (if ''*'' \<in> set (HTTP_CORSOrigins (store_Config w))
                                   then [''*''] else HTTP_CORSOrigins (store_Config w)),
                 allowCredentials = True\<rparr>)"
  using assms
  by (simp add: veap_cors_def startupBase_def newRoot_def Let_def registered_append
      veapHandler_URLPrefix_def parseCORSOptions_def defaultCors_def)

text \<open>
  C8: with the origin list \<open>["*"]\<close> configured, \<open>startupBase\<close> takes the branch for a
  non-empty list: it registers the VEAP handler behind a CORS policy that lists the
  wildcard origin, hence allows every origin, and allows credentials.
\<close>

theorem startupBase_wildcard_with_credentials:
  "HTTP_CORSOrigins (store_Config world_wildcard) = [''*'']
 \<and> registered ''/'' (trace (startupBase Chan_serveErr world_wildcard)) =
      Some (CORS [AllowedMethods [''GET'', ''PUT''], AllowedOrigins [''*''], AllowCredentials]
             (HTTPAuthHandler VeapHandler Ref_store ''CCU-Jack VEAP-Server''))
 \<and> veap_cors (startupBase Chan_serveErr world_wildcard) =
      Some \<lparr>allowedMethods = [''GET'', ''PUT''], allowedOrigins = [''*''],
            allowCredentials = True\<rparr>
 \<and> wildcard_origin \<lparr>allowedMethods = [''GET'', ''PUT''], allowedOrigins = [''*''],
      allowCredentials = True\<rparr>
 \<and> isOriginAllowed \<lparr>allowedMethods = [''GET'', ''PUT''], allowedOrigins = [''*''],
      allowCredentials = True\<rparr> ''https://any.example''"
proof -
  have cfg: "store_Config world_wildcard = example_config\<lparr>HTTP_CORSOrigins := [''*'']\<rparr>"
    and tr: "trace world_wildcard = []"
    by (simp_all add: world_wildcard_def world_empty_def initial_world_def)
  have reg: "registered ''/'' (trace (startupBase Chan_serveErr world_wildcard)) =
      Some (CORS [AllowedMethods [''GET'', ''PUT''], AllowedOrigins [''*''], AllowCredentials]
             (HTTPAuthHandler VeapHandler Ref_store ''CCU-Jack VEAP-Server''))"
    by (simp add: startupBase_def newRoot_def Let_def cfg tr veapHandler_URLPrefix_def)
  have pol: "veap_cors (startupBase Chan_serveErr world_wildcard) =
      Some \<lparr>allowedMethods = [''GET'', ''PUT''], allowedOrigins = [''*''],
            allowCredentials = True\<rparr>"
    by (simp add: startupBase_cors tr cfg veapHandler_URLPrefix_def)
  show ?thesis
    by (simp add: reg pol cfg wildcard_origin_def isOriginAllowed_def)
qed

end
